theory Spec2Isabelle
  imports Complex_Main
begin

section \<open>JavaScript numbers\<close>

text \<open>
  The simulation computes on JavaScript numbers. A finite number is modelled by the real it
  denotes (rounding and overflow are not modelled, and the two zeros are one value, the
  positive one); the three values that are not finite keep the behaviour IEEE 754 gives them,
  because the code reaches them by dividing by zero and its comparisons treat them
  differently: every comparison with NaN is false, the infinities compare as usual.
\<close>

datatype jsnum = Fin real | PInf | NInf | NaN

fun jneg :: "jsnum \<Rightarrow> jsnum" where
  "jneg (Fin a) = Fin (- a)"
| "jneg PInf = NInf"
| "jneg NInf = PInf"
| "jneg NaN = NaN"

fun jadd :: "jsnum \<Rightarrow> jsnum \<Rightarrow> jsnum" where
  "jadd NaN _ = NaN"
| "jadd _ NaN = NaN"
| "jadd (Fin a) (Fin b) = Fin (a + b)"
| "jadd (Fin a) PInf = PInf"
| "jadd (Fin a) NInf = NInf"
| "jadd PInf (Fin b) = PInf"
| "jadd NInf (Fin b) = NInf"
| "jadd PInf PInf = PInf"
| "jadd NInf NInf = NInf"
| "jadd PInf NInf = NaN"
| "jadd NInf PInf = NaN"

definition jsub :: "jsnum \<Rightarrow> jsnum \<Rightarrow> jsnum" where
  "jsub a b = jadd a (jneg b)"

text \<open>The infinity of the given sign: \<open>True\<close> for the negative one.\<close>

definition jinf :: "bool \<Rightarrow> jsnum" where
  "jinf negative = (if negative then NInf else PInf)"

fun jmul :: "jsnum \<Rightarrow> jsnum \<Rightarrow> jsnum" where
  "jmul NaN _ = NaN"
| "jmul _ NaN = NaN"
| "jmul (Fin a) (Fin b) = Fin (a * b)"
| "jmul (Fin a) PInf = (if a = 0 then NaN else jinf (a < 0))"
| "jmul (Fin a) NInf = (if a = 0 then NaN else jinf (0 < a))"
| "jmul PInf (Fin b) = (if b = 0 then NaN else jinf (b < 0))"
| "jmul NInf (Fin b) = (if b = 0 then NaN else jinf (0 < b))"
| "jmul PInf PInf = PInf"
| "jmul NInf NInf = PInf"
| "jmul PInf NInf = NInf"
| "jmul NInf PInf = NInf"

fun jdiv :: "jsnum \<Rightarrow> jsnum \<Rightarrow> jsnum" where
  "jdiv NaN _ = NaN"
| "jdiv _ NaN = NaN"
| "jdiv (Fin a) (Fin b) =
     (if b = 0 then (if a = 0 then NaN else jinf (a < 0)) else Fin (a / b))"
| "jdiv (Fin a) PInf = Fin 0"
| "jdiv (Fin a) NInf = Fin 0"
| "jdiv PInf (Fin b) = jinf (b < 0)"
| "jdiv NInf (Fin b) = jinf (0 \<le> b)"
| "jdiv PInf PInf = NaN"
| "jdiv NInf NInf = NaN"
| "jdiv PInf NInf = NaN"
| "jdiv NInf PInf = NaN"

text \<open>\<open>Math.sqrt\<close>.\<close>

fun jsqrt :: "jsnum \<Rightarrow> jsnum" where
  "jsqrt (Fin a) = (if a < 0 then NaN else Fin (sqrt a))"
| "jsqrt PInf = PInf"
| "jsqrt NInf = NaN"
| "jsqrt NaN = NaN"

fun jlt :: "jsnum \<Rightarrow> jsnum \<Rightarrow> bool" where
  "jlt NaN _ = False"
| "jlt _ NaN = False"
| "jlt (Fin a) (Fin b) = (a < b)"
| "jlt (Fin a) PInf = True"
| "jlt (Fin a) NInf = False"
| "jlt PInf _ = False"
| "jlt NInf (Fin b) = True"
| "jlt NInf PInf = True"
| "jlt NInf NInf = False"

definition jgt :: "jsnum \<Rightarrow> jsnum \<Rightarrow> bool" where
  "jgt a b = jlt b a"

fun isFin :: "jsnum \<Rightarrow> bool" where
  "isFin (Fin a) = True"
| "isFin _ = False"

section \<open>Vec3\<close>

text \<open>
  Modelled from the spec: the class \<open>Vec3\<close>, which \<open>SimTimeStep\<close> uses and whose
  declaration is not in the source file. The spec describes it as a tuple of three numbers
  with add, subtract, scalar multiply and divide, length and normalization, the normalization
  of a vector of length zero being left without a guard. The methods \<open>inc\<close> and \<open>dec\<close>
  change the receiver; here they return its new value.
\<close>

datatype vec3 = Vec3 (vx: jsnum) (vy: jsnum) (vz: jsnum)

definition vinc :: "vec3 \<Rightarrow> vec3 \<Rightarrow> vec3" where
  "vinc a b = Vec3 (jadd (vx a) (vx b)) (jadd (vy a) (vy b)) (jadd (vz a) (vz b))"

definition vdec :: "vec3 \<Rightarrow> vec3 \<Rightarrow> vec3" where
  "vdec a b = Vec3 (jsub (vx a) (vx b)) (jsub (vy a) (vy b)) (jsub (vz a) (vz b))"

definition vsub :: "vec3 \<Rightarrow> vec3 \<Rightarrow> vec3" where
  "vsub a b = Vec3 (jsub (vx a) (vx b)) (jsub (vy a) (vy b)) (jsub (vz a) (vz b))"

definition vmul :: "vec3 \<Rightarrow> jsnum \<Rightarrow> vec3" where
  "vmul a f = Vec3 (jmul (vx a) f) (jmul (vy a) f) (jmul (vz a) f)"

definition vdiv :: "vec3 \<Rightarrow> jsnum \<Rightarrow> vec3" where
  "vdiv a f = Vec3 (jdiv (vx a) f) (jdiv (vy a) f) (jdiv (vz a) f)"

definition vlen :: "vec3 \<Rightarrow> jsnum" where
  "vlen a = jsqrt (jadd (jadd (jmul (vx a) (vx a)) (jmul (vy a) (vy a))) (jmul (vz a) (vz a)))"

definition vunit :: "vec3 \<Rightarrow> vec3" where
  "vunit a = vdiv a (vlen a)"

definition vzero :: vec3 where
  "vzero = Vec3 (Fin 0) (Fin 0) (Fin 0)"

definition vnan :: vec3 where
  "vnan = Vec3 NaN NaN NaN"

definition vfin :: "vec3 \<Rightarrow> bool" where
  "vfin a = (isFin (vx a) \<and> isFin (vy a) \<and> isFin (vz a))"

text \<open>The property lookup \<open>v[axis]\<close> and the assignment to it, for the three axis names.\<close>

datatype axis = AxisX | AxisY | AxisZ

fun getAxis :: "vec3 \<Rightarrow> axis \<Rightarrow> jsnum" where
  "getAxis v AxisX = vx v"
| "getAxis v AxisY = vy v"
| "getAxis v AxisZ = vz v"

fun setAxis :: "vec3 \<Rightarrow> axis \<Rightarrow> jsnum \<Rightarrow> vec3" where
  "setAxis (Vec3 a b c) AxisX n = Vec3 n b c"
| "setAxis (Vec3 a b c) AxisY n = Vec3 a n c"
| "setAxis (Vec3 a b c) AxisZ n = Vec3 a b n"

section \<open>SimTimeStep\<close>

record spring =
  p0 :: nat
  p1 :: nat
  rest :: jsnum

text \<open>
  Reading an array beyond its end gives \<open>undefined\<close>, and calling a method or reading a
  field of \<open>undefined\<close> throws a \<open>TypeError\<close>: the only exception the step can throw.
\<close>

datatype js_error = TypeError

text \<open>A loop whose body may throw: the first exception ends it.\<close>

primrec foldE :: "('a \<Rightarrow> 's \<Rightarrow> js_error + 's) \<Rightarrow> 'a list \<Rightarrow> 's \<Rightarrow> js_error + 's" where
  "foldE body [] s = Inr s"
| "foldE body (a # as) s =
     (case body a s of Inl e \<Rightarrow> Inl e | Inr s' \<Rightarrow> foldE body as s')"

definition clampWarning :: string where
  "clampWarning = ''Time step too large, consider reducing it.''"

definition maxDt :: jsnum where
  "maxDt = Fin (1 / 20)"

text \<open>The messages \<open>console.warn\<close> receives, and the value of \<open>dt\<close> after the guard.\<close>

definition dtWarnings :: "jsnum \<Rightarrow> string list" where
  "dtWarnings dt = (if jgt dt maxDt then [clampWarning] else [])"

definition clampDt :: "jsnum \<Rightarrow> jsnum" where
  "clampDt dt = (if jgt dt maxDt then maxDt else dt)"

text \<open>Step 2, the body of \<open>springs.forEach\<close>: the force of one spring.\<close>

definition springForce :: "jsnum \<Rightarrow> vec3 \<Rightarrow> vec3 \<Rightarrow> jsnum \<Rightarrow> vec3" where
  "springForce stiffness pos0 pos1 restLength =
     (let displacement = vsub pos1 pos0;
          currentLength = vlen displacement;
          direction = vunit displacement;
          forceMagnitude = jmul stiffness (jsub currentLength restLength)
      in vmul direction forceMagnitude)"

definition springStep :: "jsnum \<Rightarrow> vec3 list \<Rightarrow> spring \<Rightarrow> vec3 list \<Rightarrow> js_error + vec3 list" where
  "springStep stiffness positions s forces =
     (if p0 s < length positions \<and> p1 s < length positions
         \<and> p0 s < length forces \<and> p1 s < length forces
      then
        (let f = springForce stiffness (positions ! p0 s) (positions ! p1 s) (rest s);
             forces1 = forces[p0 s := vinc (forces ! p0 s) f]
         in Inr (forces1[p1 s := vdec (forces1 ! p1 s) f]))
      else Inl TypeError)"

text \<open>Steps 1 and 2: the accumulators start at zero and every spring adds to two of them.\<close>

definition springForces :: "jsnum \<Rightarrow> vec3 list \<Rightarrow> spring list \<Rightarrow> js_error + vec3 list" where
  "springForces stiffness positions springs =
     foldE (springStep stiffness positions) springs (replicate (length positions) vzero)"

text \<open>Step 3, the body of the loop: gravity and damping of particle \<open>i\<close>.\<close>

definition gravityDampingStep ::
  "jsnum \<Rightarrow> jsnum \<Rightarrow> vec3 \<Rightarrow> vec3 list \<Rightarrow> nat \<Rightarrow> vec3 list \<Rightarrow> js_error + vec3 list" where
  "gravityDampingStep damping particleMass gravity velocities i forces =
     (if i < length forces \<and> i < length velocities
      then Inr (forces[i := vdec (vinc (forces ! i) (vmul gravity particleMass))
                                 (vmul (velocities ! i) damping)])
      else Inl TypeError)"

text \<open>Step 4, the body of the loop: the velocity of particle \<open>i\<close> first, then its position.\<close>

definition integrateStep ::
  "jsnum \<Rightarrow> jsnum \<Rightarrow> vec3 list \<Rightarrow> nat \<Rightarrow> vec3 list \<times> vec3 list \<Rightarrow> vec3 list \<times> vec3 list" where
  "integrateStep dt particleMass forces i state =
     (case state of (positions, velocities) \<Rightarrow>
        (let acceleration = vdiv (forces ! i) particleMass;
             velocities1 = velocities[i := vinc (velocities ! i) (vmul acceleration dt)];
             positions1 = positions[i := vinc (positions ! i) (vmul (velocities1 ! i) dt)]
         in (positions1, velocities1)))"

definition minBound :: jsnum where
  "minBound = Fin (- 1)"

definition maxBound :: jsnum where
  "maxBound = Fin 1"

text \<open>Step 5, the body of the inner \<open>forEach\<close>: one axis of particle \<open>i\<close>.\<close>

definition collideAxis ::
  "jsnum \<Rightarrow> nat \<Rightarrow> axis \<Rightarrow> vec3 list \<times> vec3 list \<Rightarrow> vec3 list \<times> vec3 list" where
  "collideAxis restitution i a state =
     (case state of (positions, velocities) \<Rightarrow>
        if jlt (getAxis (positions ! i) a) minBound then
          (let positions1 = positions[i := setAxis (positions ! i) a minBound]
           in if jlt (getAxis (velocities ! i) a) (Fin 0)
              then (positions1,
                    velocities[i := setAxis (velocities ! i) a
                                      (jmul (getAxis (velocities ! i) a) (jneg restitution))])
              else (positions1, velocities))
        else if jgt (getAxis (positions ! i) a) maxBound then
          (let positions1 = positions[i := setAxis (positions ! i) a maxBound]
           in if jgt (getAxis (velocities ! i) a) (Fin 0)
              then (positions1,
                    velocities[i := setAxis (velocities ! i) a
                                      (jmul (getAxis (velocities ! i) a) (jneg restitution))])
              else (positions1, velocities))
        else (positions, velocities))"

definition collideStep ::
  "jsnum \<Rightarrow> nat \<Rightarrow> vec3 list \<times> vec3 list \<Rightarrow> vec3 list \<times> vec3 list" where
  "collideStep restitution i state =
     fold (collideAxis restitution i) [AxisX, AxisY, AxisZ] state"

text \<open>Steps 1 to 3: the force on every particle, or the exception.\<close>

definition totalForces ::
  "vec3 list \<Rightarrow> vec3 list \<Rightarrow> spring list \<Rightarrow> jsnum \<Rightarrow> jsnum \<Rightarrow> jsnum \<Rightarrow> vec3
     \<Rightarrow> js_error + vec3 list" where
  "totalForces positions velocities springs stiffness damping particleMass gravity =
     (case springForces stiffness positions springs of
        Inl e \<Rightarrow> Inl e
      | Inr forces \<Rightarrow>
          foldE (gravityDampingStep damping particleMass gravity velocities)
            [0..<length positions] forces)"

text \<open>Steps 1 to 4, with the value \<open>dt\<close> has after the guard: the state before the walls.\<close>

definition integrated ::
  "jsnum \<Rightarrow> vec3 list \<Rightarrow> vec3 list \<Rightarrow> spring list \<Rightarrow> jsnum \<Rightarrow> jsnum \<Rightarrow> jsnum \<Rightarrow> vec3
     \<Rightarrow> js_error + vec3 list \<times> vec3 list" where
  "integrated dt positions velocities springs stiffness damping particleMass gravity =
     (case totalForces positions velocities springs stiffness damping particleMass gravity of
        Inl e \<Rightarrow> Inl e
      | Inr forces \<Rightarrow>
          Inr (fold (integrateStep dt particleMass forces) [0..<length positions]
                 (positions, velocities)))"

text \<open>Step 5: the walls of the box.\<close>

definition collide :: "jsnum \<Rightarrow> vec3 list \<times> vec3 list \<Rightarrow> vec3 list \<times> vec3 list" where
  "collide restitution state =
     fold (collideStep restitution) [0..<length (fst state)] state"

text \<open>
  The whole step. It returns the warnings it logged and either the exception it threw or
  the two arrays as it leaves them. An exception can only be thrown in steps 2 and 3, before
  the first write to \<open>positions\<close> or \<open>velocities\<close>. The vectors of the two arrays and
  \<open>gravity\<close> are taken to be distinct objects.
\<close>

definition SimTimeStep ::
  "jsnum \<Rightarrow> vec3 list \<Rightarrow> vec3 list \<Rightarrow> spring list \<Rightarrow> jsnum \<Rightarrow> jsnum \<Rightarrow> jsnum \<Rightarrow> vec3 \<Rightarrow> jsnum
     \<Rightarrow> string list \<times> (js_error + vec3 list \<times> vec3 list)" where
  "SimTimeStep dt positions velocities springs stiffness damping particleMass gravity restitution =
     (dtWarnings dt,
      case integrated (clampDt dt) positions velocities springs stiffness damping particleMass
             gravity of
        Inl e \<Rightarrow> Inl e
      | Inr state \<Rightarrow> Inr (collide restitution state))"

section \<open>The step under rounding\<close>

text \<open>
  JavaScript rounds the result of every operation on two finite numbers to a double, or to
  an infinity when it is beyond the doubles. The functions above leave that out: they are the
  step computed exactly. The functions of this section are the same code with every such
  result passed through a function \<open>rnd\<close> from the exact result to the number stored, of
  which nothing is assumed but what a theorem says; the operands that are not finite behave
  as above, and so does a division by zero. With \<open>Fin\<close> for \<open>rnd\<close> they are the
  functions above. Negation and the comparisons are exact in JavaScript as well.
\<close>

fun jaddR :: "(real \<Rightarrow> jsnum) \<Rightarrow> jsnum \<Rightarrow> jsnum \<Rightarrow> jsnum" where
  "jaddR rnd (Fin a) (Fin b) = rnd (a + b)"
| "jaddR rnd a b = jadd a b"

definition jsubR :: "(real \<Rightarrow> jsnum) \<Rightarrow> jsnum \<Rightarrow> jsnum \<Rightarrow> jsnum" where
  "jsubR rnd a b = jaddR rnd a (jneg b)"

fun jmulR :: "(real \<Rightarrow> jsnum) \<Rightarrow> jsnum \<Rightarrow> jsnum \<Rightarrow> jsnum" where
  "jmulR rnd (Fin a) (Fin b) = rnd (a * b)"
| "jmulR rnd a b = jmul a b"

fun jdivR :: "(real \<Rightarrow> jsnum) \<Rightarrow> jsnum \<Rightarrow> jsnum \<Rightarrow> jsnum" where
  "jdivR rnd (Fin a) (Fin b) = (if b = 0 then jdiv (Fin a) (Fin b) else rnd (a / b))"
| "jdivR rnd a b = jdiv a b"

fun jsqrtR :: "(real \<Rightarrow> jsnum) \<Rightarrow> jsnum \<Rightarrow> jsnum" where
  "jsqrtR rnd (Fin a) = (if a < 0 then NaN else rnd (sqrt a))"
| "jsqrtR rnd a = jsqrt a"

definition vincR :: "(real \<Rightarrow> jsnum) \<Rightarrow> vec3 \<Rightarrow> vec3 \<Rightarrow> vec3" where
  "vincR rnd a b =
     Vec3 (jaddR rnd (vx a) (vx b)) (jaddR rnd (vy a) (vy b)) (jaddR rnd (vz a) (vz b))"

definition vdecR :: "(real \<Rightarrow> jsnum) \<Rightarrow> vec3 \<Rightarrow> vec3 \<Rightarrow> vec3" where
  "vdecR rnd a b =
     Vec3 (jsubR rnd (vx a) (vx b)) (jsubR rnd (vy a) (vy b)) (jsubR rnd (vz a) (vz b))"

definition vsubR :: "(real \<Rightarrow> jsnum) \<Rightarrow> vec3 \<Rightarrow> vec3 \<Rightarrow> vec3" where
  "vsubR rnd a b =
     Vec3 (jsubR rnd (vx a) (vx b)) (jsubR rnd (vy a) (vy b)) (jsubR rnd (vz a) (vz b))"

definition vmulR :: "(real \<Rightarrow> jsnum) \<Rightarrow> vec3 \<Rightarrow> jsnum \<Rightarrow> vec3" where
  "vmulR rnd a f = Vec3 (jmulR rnd (vx a) f) (jmulR rnd (vy a) f) (jmulR rnd (vz a) f)"

definition vdivR :: "(real \<Rightarrow> jsnum) \<Rightarrow> vec3 \<Rightarrow> jsnum \<Rightarrow> vec3" where
  "vdivR rnd a f = Vec3 (jdivR rnd (vx a) f) (jdivR rnd (vy a) f) (jdivR rnd (vz a) f)"

definition vlenR :: "(real \<Rightarrow> jsnum) \<Rightarrow> vec3 \<Rightarrow> jsnum" where
  "vlenR rnd a =
     jsqrtR rnd (jaddR rnd (jaddR rnd (jmulR rnd (vx a) (vx a)) (jmulR rnd (vy a) (vy a)))
                           (jmulR rnd (vz a) (vz a)))"

definition vunitR :: "(real \<Rightarrow> jsnum) \<Rightarrow> vec3 \<Rightarrow> vec3" where
  "vunitR rnd a = vdivR rnd a (vlenR rnd a)"

definition springForceR :: "(real \<Rightarrow> jsnum) \<Rightarrow> jsnum \<Rightarrow> vec3 \<Rightarrow> vec3 \<Rightarrow> jsnum \<Rightarrow> vec3" where
  "springForceR rnd stiffness pos0 pos1 restLength =
     (let displacement = vsubR rnd pos1 pos0;
          currentLength = vlenR rnd displacement;
          direction = vunitR rnd displacement;
          forceMagnitude = jmulR rnd stiffness (jsubR rnd currentLength restLength)
      in vmulR rnd direction forceMagnitude)"

definition springStepR ::
  "(real \<Rightarrow> jsnum) \<Rightarrow> jsnum \<Rightarrow> vec3 list \<Rightarrow> spring \<Rightarrow> vec3 list \<Rightarrow> js_error + vec3 list" where
  "springStepR rnd stiffness positions s forces =
     (if p0 s < length positions \<and> p1 s < length positions
         \<and> p0 s < length forces \<and> p1 s < length forces
      then
        (let f = springForceR rnd stiffness (positions ! p0 s) (positions ! p1 s) (rest s);
             forces1 = forces[p0 s := vincR rnd (forces ! p0 s) f]
         in Inr (forces1[p1 s := vdecR rnd (forces1 ! p1 s) f]))
      else Inl TypeError)"

definition springForcesR ::
  "(real \<Rightarrow> jsnum) \<Rightarrow> jsnum \<Rightarrow> vec3 list \<Rightarrow> spring list \<Rightarrow> js_error + vec3 list" where
  "springForcesR rnd stiffness positions springs =
     foldE (springStepR rnd stiffness positions) springs (replicate (length positions) vzero)"

definition gravityDampingStepR ::
  "(real \<Rightarrow> jsnum) \<Rightarrow> jsnum \<Rightarrow> jsnum \<Rightarrow> vec3 \<Rightarrow> vec3 list \<Rightarrow> nat \<Rightarrow> vec3 list
     \<Rightarrow> js_error + vec3 list" where
  "gravityDampingStepR rnd damping particleMass gravity velocities i forces =
     (if i < length forces \<and> i < length velocities
      then Inr (forces[i := vdecR rnd (vincR rnd (forces ! i) (vmulR rnd gravity particleMass))
                                     (vmulR rnd (velocities ! i) damping)])
      else Inl TypeError)"

definition integrateStepR ::
  "(real \<Rightarrow> jsnum) \<Rightarrow> jsnum \<Rightarrow> jsnum \<Rightarrow> vec3 list \<Rightarrow> nat \<Rightarrow> vec3 list \<times> vec3 list
     \<Rightarrow> vec3 list \<times> vec3 list" where
  "integrateStepR rnd dt particleMass forces i state =
     (case state of (positions, velocities) \<Rightarrow>
        (let acceleration = vdivR rnd (forces ! i) particleMass;
             velocities1 = velocities[i := vincR rnd (velocities ! i) (vmulR rnd acceleration dt)];
             positions1 = positions[i := vincR rnd (positions ! i)
                                            (vmulR rnd (velocities1 ! i) dt)]
         in (positions1, velocities1)))"

definition collideAxisR ::
  "(real \<Rightarrow> jsnum) \<Rightarrow> jsnum \<Rightarrow> nat \<Rightarrow> axis \<Rightarrow> vec3 list \<times> vec3 list
     \<Rightarrow> vec3 list \<times> vec3 list" where
  "collideAxisR rnd restitution i a state =
     (case state of (positions, velocities) \<Rightarrow>
        if jlt (getAxis (positions ! i) a) minBound then
          (let positions1 = positions[i := setAxis (positions ! i) a minBound]
           in if jlt (getAxis (velocities ! i) a) (Fin 0)
              then (positions1,
                    velocities[i := setAxis (velocities ! i) a
                                      (jmulR rnd (getAxis (velocities ! i) a)
                                         (jneg restitution))])
              else (positions1, velocities))
        else if jgt (getAxis (positions ! i) a) maxBound then
          (let positions1 = positions[i := setAxis (positions ! i) a maxBound]
           in if jgt (getAxis (velocities ! i) a) (Fin 0)
              then (positions1,
                    velocities[i := setAxis (velocities ! i) a
                                      (jmulR rnd (getAxis (velocities ! i) a)
                                         (jneg restitution))])
              else (positions1, velocities))
        else (positions, velocities))"

definition collideStepR ::
  "(real \<Rightarrow> jsnum) \<Rightarrow> jsnum \<Rightarrow> nat \<Rightarrow> vec3 list \<times> vec3 list \<Rightarrow> vec3 list \<times> vec3 list" where
  "collideStepR rnd restitution i state =
     fold (collideAxisR rnd restitution i) [AxisX, AxisY, AxisZ] state"

definition totalForcesR ::
  "(real \<Rightarrow> jsnum) \<Rightarrow> vec3 list \<Rightarrow> vec3 list \<Rightarrow> spring list \<Rightarrow> jsnum \<Rightarrow> jsnum \<Rightarrow> jsnum
     \<Rightarrow> vec3 \<Rightarrow> js_error + vec3 list" where
  "totalForcesR rnd positions velocities springs stiffness damping particleMass gravity =
     (case springForcesR rnd stiffness positions springs of
        Inl e \<Rightarrow> Inl e
      | Inr forces \<Rightarrow>
          foldE (gravityDampingStepR rnd damping particleMass gravity velocities)
            [0..<length positions] forces)"

definition integratedR ::
  "(real \<Rightarrow> jsnum) \<Rightarrow> jsnum \<Rightarrow> vec3 list \<Rightarrow> vec3 list \<Rightarrow> spring list \<Rightarrow> jsnum \<Rightarrow> jsnum
     \<Rightarrow> jsnum \<Rightarrow> vec3 \<Rightarrow> js_error + vec3 list \<times> vec3 list" where
  "integratedR rnd dt positions velocities springs stiffness damping particleMass gravity =
     (case totalForcesR rnd positions velocities springs stiffness damping particleMass
             gravity of
        Inl e \<Rightarrow> Inl e
      | Inr forces \<Rightarrow>
          Inr (fold (integrateStepR rnd dt particleMass forces) [0..<length positions]
                 (positions, velocities)))"

definition collideR ::
  "(real \<Rightarrow> jsnum) \<Rightarrow> jsnum \<Rightarrow> vec3 list \<times> vec3 list \<Rightarrow> vec3 list \<times> vec3 list" where
  "collideR rnd restitution state =
     fold (collideStepR rnd restitution) [0..<length (fst state)] state"

definition SimTimeStepR ::
  "(real \<Rightarrow> jsnum) \<Rightarrow> jsnum \<Rightarrow> vec3 list \<Rightarrow> vec3 list \<Rightarrow> spring list \<Rightarrow> jsnum \<Rightarrow> jsnum
     \<Rightarrow> jsnum \<Rightarrow> vec3 \<Rightarrow> jsnum \<Rightarrow> string list \<times> (js_error + vec3 list \<times> vec3 list)" where
  "SimTimeStepR rnd dt positions velocities springs stiffness damping particleMass gravity
     restitution =
     (dtWarnings dt,
      case integratedR rnd (clampDt dt) positions velocities springs stiffness damping
             particleMass gravity of
        Inl e \<Rightarrow> Inl e
      | Inr state \<Rightarrow> Inr (collideR rnd restitution state))"

text \<open>The caller's loop under rounding.\<close>

fun repeatSimTimeStepR ::
  "(real \<Rightarrow> jsnum) \<Rightarrow> nat \<Rightarrow> jsnum \<Rightarrow> vec3 list \<Rightarrow> vec3 list \<Rightarrow> spring list \<Rightarrow> jsnum \<Rightarrow> jsnum
     \<Rightarrow> jsnum \<Rightarrow> vec3 \<Rightarrow> jsnum \<Rightarrow> js_error + vec3 list \<times> vec3 list" where
  "repeatSimTimeStepR rnd 0 dt positions velocities springs stiffness damping particleMass
     gravity restitution = Inr (positions, velocities)"
| "repeatSimTimeStepR rnd (Suc n) dt positions velocities springs stiffness damping
     particleMass gravity restitution =
     (case snd (SimTimeStepR rnd dt positions velocities springs stiffness damping particleMass
                  gravity restitution) of
        Inl e \<Rightarrow> Inl e
      | Inr (positions1, velocities1) \<Rightarrow>
          repeatSimTimeStepR rnd n dt positions1 velocities1 springs stiffness damping
            particleMass gravity restitution)"

text \<open>
  A number the rounding leaves as it is: a double. The numbers of an input are doubles.
\<close>

fun isDouble :: "(real \<Rightarrow> jsnum) \<Rightarrow> jsnum \<Rightarrow> bool" where
  "isDouble rnd (Fin a) = (rnd a = Fin a)"
| "isDouble rnd _ = False"

definition vDouble :: "(real \<Rightarrow> jsnum) \<Rightarrow> vec3 \<Rightarrow> bool" where
  "vDouble rnd a = (isDouble rnd (vx a) \<and> isDouble rnd (vy a) \<and> isDouble rnd (vz a))"

section \<open>Notions used to state the properties\<close>

text \<open>
  What step 5 does to one coordinate, written as the two functions of the position and
  velocity components it amounts to. The loops are compared with them below.
\<close>

definition clampedPos :: "jsnum \<Rightarrow> jsnum" where
  "clampedPos p = (if jlt p minBound then minBound else if jgt p maxBound then maxBound else p)"

definition bouncedVel :: "jsnum \<Rightarrow> jsnum \<Rightarrow> jsnum \<Rightarrow> jsnum" where
  "bouncedVel restitution p v =
     (if jlt p minBound then (if jlt v (Fin 0) then jmul v (jneg restitution) else v)
      else if jgt p maxBound then (if jgt v (Fin 0) then jmul v (jneg restitution) else v)
      else v)"

definition clampedVec :: "vec3 \<Rightarrow> vec3" where
  "clampedVec p = Vec3 (clampedPos (vx p)) (clampedPos (vy p)) (clampedPos (vz p))"

definition bouncedVec :: "jsnum \<Rightarrow> vec3 \<Rightarrow> vec3 \<Rightarrow> vec3" where
  "bouncedVec restitution p v =
     Vec3 (bouncedVel restitution (vx p) (vx v)) (bouncedVel restitution (vy p) (vy v))
          (bouncedVel restitution (vz p) (vz v))"

text \<open>A coordinate inside the box, walls included, and a vector all of whose coordinates are.\<close>

fun inBounds :: "jsnum \<Rightarrow> bool" where
  "inBounds (Fin a) = (- 1 \<le> a \<and> a \<le> 1)"
| "inBounds _ = False"

definition inBox :: "vec3 \<Rightarrow> bool" where
  "inBox p = (inBounds (vx p) \<and> inBounds (vy p) \<and> inBounds (vz p))"

text \<open>The caller's loop: \<open>n\<close> calls of the step on the same arrays, unless one throws.\<close>

fun repeatSimTimeStep ::
  "nat \<Rightarrow> jsnum \<Rightarrow> vec3 list \<Rightarrow> vec3 list \<Rightarrow> spring list \<Rightarrow> jsnum \<Rightarrow> jsnum \<Rightarrow> jsnum \<Rightarrow> vec3
     \<Rightarrow> jsnum \<Rightarrow> js_error + vec3 list \<times> vec3 list" where
  "repeatSimTimeStep 0 dt positions velocities springs stiffness damping particleMass gravity
     restitution = Inr (positions, velocities)"
| "repeatSimTimeStep (Suc n) dt positions velocities springs stiffness damping particleMass
     gravity restitution =
     (case snd (SimTimeStep dt positions velocities springs stiffness damping particleMass
                  gravity restitution) of
        Inl e \<Rightarrow> Inl e
      | Inr (positions1, velocities1) \<Rightarrow>
          repeatSimTimeStep n dt positions1 velocities1 springs stiffness damping particleMass
            gravity restitution)"



text \<open>The inputs the spec calls valid: every spring joins two particles of the array.\<close>

definition validSprings :: "vec3 list \<Rightarrow> spring list \<Rightarrow> bool" where
  "validSprings positions springs =
     list_all (\<lambda>s. p0 s < length positions \<and> p1 s < length positions) springs"

section \<open>The loops, particle by particle\<close>

text \<open>The equations that evaluate a step on given numbers.\<close>

lemmas sim_eval = SimTimeStep_def integrated_def totalForces_def springForces_def collide_def
  collideStep_def collideAxis_def integrateStep_def gravityDampingStep_def springStep_def
  springForce_def clampDt_def dtWarnings_def maxDt_def minBound_def maxBound_def
  vinc_def vdec_def vsub_def vmul_def vdiv_def vlen_def vunit_def vzero_def jsub_def jgt_def
  jinf_def Let_def upt_rec


lemma foldE_append:
  "foldE body (as @ bs) s = (case foldE body as s of Inl e \<Rightarrow> Inl e | Inr s' \<Rightarrow> foldE body bs s')"
  by (induction as arbitrary: s) (auto split: sum.splits)

lemma springStep_length:
  assumes "springStep k ps s fs = Inr fs'"
  shows "length fs' = length fs"
  using assms by (auto simp: springStep_def Let_def split: if_splits)

lemma springStep_Inr:
  assumes "p0 s < length ps" "p1 s < length ps" "length fs = length ps"
  shows "\<exists>fs'. springStep k ps s fs = Inr fs'"
  using assms by (simp add: springStep_def Let_def)

lemma springLoop_Inr:
  assumes "\<forall>s \<in> set ss. p0 s < length ps \<and> p1 s < length ps" "length fs = length ps"
  shows "\<exists>fs'. foldE (springStep k ps) ss fs = Inr fs' \<and> length fs' = length ps"
  using assms
proof (induction ss arbitrary: fs)
  case Nil
  then show ?case by simp
next
  case (Cons s ss)
  from Cons.prems obtain fs1 where 1: "springStep k ps s fs = Inr fs1"
    using springStep_Inr [of s ps fs k] by auto
  then have "length fs1 = length ps"
    using springStep_length Cons.prems(2) by fastforce
  with Cons.IH [of fs1] Cons.prems(1) 1 show ?case by simp
qed

lemma springForces_Inr:
  assumes "\<forall>s \<in> set ss. p0 s < length ps \<and> p1 s < length ps"
  shows "\<exists>fs. springForces k ps ss = Inr fs \<and> length fs = length ps"
  unfolding springForces_def using springLoop_Inr [OF assms, of "replicate (length ps) vzero" k]
  by simp

lemma gravityLoop:
  assumes "n \<le> length fs" "n \<le> length vs"
  shows "foldE (gravityDampingStep d m g vs) [0..<n] fs
         = Inr (map (\<lambda>j. if j < n then vdec (vinc (fs ! j) (vmul g m)) (vmul (vs ! j) d)
                          else fs ! j) [0..<length fs])"
  using assms
proof (induction n)
  case 0
  then show ?case by (simp add: map_nth)
next
  case (Suc n)
  then show ?case
    by (auto simp: foldE_append gravityDampingStep_def nth_list_update less_Suc_eq intro!: nth_equalityI)
qed

lemma integrateLoop:
  assumes "n \<le> length ps" "n \<le> length vs"
  shows "fold (integrateStep dt m F) [0..<n] (ps, vs)
         = (map (\<lambda>j. if j < n
                      then vinc (ps ! j) (vmul (vinc (vs ! j) (vmul (vdiv (F ! j) m) dt)) dt)
                      else ps ! j) [0..<length ps],
            map (\<lambda>j. if j < n then vinc (vs ! j) (vmul (vdiv (F ! j) m) dt) else vs ! j)
              [0..<length vs])"
  using assms
proof (induction n)
  case 0
  then show ?case by (simp add: map_nth)
next
  case (Suc n)
  then show ?case
    by (auto simp: integrateStep_def Let_def nth_list_update less_Suc_eq intro!: nth_equalityI)
qed


lemma setAxis_getAxis: "setAxis v a (getAxis v a) = v"
  by (cases v; cases a) simp_all

lemma getAxis_setAxis:
  "getAxis (setAxis v a n) b = (if a = b then n else getAxis v b)"
  by (cases v; cases a; cases b) simp_all

lemma collideAxis_eq:
  assumes "i < length ps" "i < length vs"
  shows "collideAxis r i a (ps, vs)
         = (ps[i := setAxis (ps ! i) a (clampedPos (getAxis (ps ! i) a))],
            vs[i := setAxis (vs ! i) a (bouncedVel r (getAxis (ps ! i) a) (getAxis (vs ! i) a))])"
  using assms
  by (simp add: collideAxis_def clampedPos_def bouncedVel_def Let_def setAxis_getAxis)

lemma collideStep_eq:
  assumes "i < length ps" "i < length vs"
  shows "collideStep r i (ps, vs) = (ps[i := clampedVec (ps ! i)], vs[i := bouncedVec r (ps ! i) (vs ! i)])"
proof -
  obtain a b c where p: "ps ! i = Vec3 a b c" by (cases "ps ! i")
  obtain a' b' c' where v: "vs ! i = Vec3 a' b' c'" by (cases "vs ! i")
  show ?thesis
    using assms by (simp add: collideStep_def collideAxis_eq p v clampedVec_def bouncedVec_def)
qed

lemma collideLoop:
  assumes "n \<le> length ps" "n \<le> length vs"
  shows "fold (collideStep r) [0..<n] (ps, vs)
         = (map (\<lambda>j. if j < n then clampedVec (ps ! j) else ps ! j) [0..<length ps],
            map (\<lambda>j. if j < n then bouncedVec r (ps ! j) (vs ! j) else vs ! j) [0..<length vs])"
  using assms
proof (induction n)
  case 0
  then show ?case by (simp add: map_nth)
next
  case (Suc n)
  then show ?case
    by (auto simp: collideStep_eq nth_list_update less_Suc_eq intro!: nth_equalityI)
qed

lemma collide_eq:
  assumes "length ps \<le> length vs"
  shows "collide r (ps, vs)
         = (map clampedVec ps,
            map (\<lambda>j. if j < length ps then bouncedVec r (ps ! j) (vs ! j) else vs ! j)
              [0..<length vs])"
  unfolding collide_def using collideLoop [of "length ps" ps vs r] assms
  by (auto intro!: nth_equalityI)

lemma totalForces_eq:
  assumes "springForces k ps ss = Inr F" "length F = length ps" "length ps \<le> length vs"
  shows "totalForces ps vs ss k d m g
         = Inr (map (\<lambda>j. vdec (vinc (F ! j) (vmul g m)) (vmul (vs ! j) d)) [0..<length ps])"
  using assms gravityLoop [of "length ps" F vs d m g]
  by (simp add: totalForces_def)

lemma integrated_eq:
  assumes "springForces k ps ss = Inr F" "length F = length ps" "length ps \<le> length vs"
  shows "integrated dt ps vs ss k d m g
         = Inr (map (\<lambda>j. vinc (ps ! j)
                      (vmul (vinc (vs ! j)
                         (vmul (vdiv (vdec (vinc (F ! j) (vmul g m)) (vmul (vs ! j) d)) m) dt)) dt))
                  [0..<length ps],
                map (\<lambda>j. if j < length ps
                      then vinc (vs ! j)
                         (vmul (vdiv (vdec (vinc (F ! j) (vmul g m)) (vmul (vs ! j) d)) m) dt)
                      else vs ! j) [0..<length vs])"
  using assms integrateLoop [of "length ps" ps vs dt m
      "map (\<lambda>j. vdec (vinc (F ! j) (vmul g m)) (vmul (vs ! j) d)) [0..<length ps]"]
  by (simp add: integrated_def totalForces_eq cong: map_cong)


lemma springLoop_length:
  assumes "foldE (springStep k ps) ss fs = Inr fs'"
  shows "length fs' = length fs"
  using assms
proof (induction ss arbitrary: fs)
  case Nil
  then show ?case by simp
next
  case (Cons s ss)
  then show ?case
    by (auto split: sum.splits dest: springStep_length)
qed

lemma springForces_length:
  assumes "springForces k ps ss = Inr F"
  shows "length F = length ps"
  using springLoop_length [of k ps ss "replicate (length ps) vzero" F] assms
  by (simp add: springForces_def)

lemma gravityLoop_Inr_D:
  assumes "foldE (gravityDampingStep d m g vs) [0..<n] fs = Inr fs'" "n \<le> length fs"
  shows "n \<le> length vs"
  using assms
proof (induction n arbitrary: fs')
  case 0
  then show ?case by simp
next
  case (Suc n)
  from Suc.prems(1) obtain s1 where s1: "foldE (gravityDampingStep d m g vs) [0..<n] fs = Inr s1"
    and b: "gravityDampingStep d m g vs n s1 = Inr fs'"
    by (auto simp: foldE_append split: sum.splits)
  from b show ?case
    by (auto simp: gravityDampingStep_def split: if_splits)
qed

lemma integrated_Inr_D:
  assumes "integrated dt ps vs ss k d m g = Inr st"
  shows "length ps \<le> length vs \<and> (\<exists>F. springForces k ps ss = Inr F \<and> length F = length ps)"
proof -
  from assms obtain F where F: "springForces k ps ss = Inr F"
    by (auto simp: integrated_def totalForces_def split: sum.splits)
  then have len: "length F = length ps" by (rule springForces_length)
  from assms F obtain F2 where
    "foldE (gravityDampingStep d m g vs) [0..<length ps] F = Inr F2"
    by (auto simp: integrated_def totalForces_def split: sum.splits)
  then have "length ps \<le> length vs"
    using gravityLoop_Inr_D [of d m g vs "length ps" F F2] len by simp
  with F len show ?thesis by blast
qed

lemma integrated_lengths:
  assumes "integrated dt ps vs ss k d m g = Inr (ps1, vs1)"
  shows "length ps1 = length ps \<and> length vs1 = length vs \<and> length ps \<le> length vs"
proof -
  from integrated_Inr_D [OF assms] obtain F where le: "length ps \<le> length vs"
    and F: "springForces k ps ss = Inr F" "length F = length ps" by blast
  from integrated_eq [OF F le, of dt d m g] assms show ?thesis
    using le by auto
qed

lemma SimTimeStep_Inr_D:
  assumes "snd (SimTimeStep dt ps vs ss k d m g r) = Inr st"
  shows "\<exists>ps1 vs1. integrated (clampDt dt) ps vs ss k d m g = Inr (ps1, vs1)
           \<and> st = collide r (ps1, vs1)"
  using assms by (auto simp: SimTimeStep_def split: sum.splits)

lemma clampedPos_cases:
  "clampedPos p = NaN \<or> (\<exists>c. clampedPos p = Fin c \<and> - 1 \<le> c \<and> c \<le> 1)"
  by (cases p) (auto simp: clampedPos_def minBound_def maxBound_def jgt_def)

lemma getAxis_clampedVec: "getAxis (clampedVec p) a = clampedPos (getAxis p a)"
  by (cases a) (simp_all add: clampedVec_def)

lemma getAxis_bouncedVec:
  "getAxis (bouncedVec r p v) a = bouncedVel r (getAxis p a) (getAxis v a)"
  by (cases a) (simp_all add: bouncedVec_def)


lemma validSprings_iff:
  "validSprings ps ss = (\<forall>s \<in> set ss. p0 s < length ps \<and> p1 s < length ps)"
  by (simp add: validSprings_def list_all_iff)


section \<open>The exact step is the step under the rounding that changes nothing\<close>

lemma jaddR_Fin: "jaddR Fin a b = jadd a b"
  by (cases a; cases b) simp_all

lemma jmulR_Fin: "jmulR Fin a b = jmul a b"
  by (cases a; cases b) simp_all

lemma jdivR_Fin: "jdivR Fin a b = jdiv a b"
  by (cases a; cases b) simp_all

lemma jsqrtR_Fin: "jsqrtR Fin a = jsqrt a"
  by (cases a) simp_all

lemma springStepR_Fin: "springStepR Fin = springStep"
  by (intro ext)
    (simp add: springStepR_def springStep_def springForceR_def springForce_def vincR_def
      vinc_def vdecR_def vdec_def vsubR_def vsub_def vmulR_def vmul_def vdivR_def vdiv_def
      vlenR_def vlen_def vunitR_def vunit_def jsubR_def jsub_def jaddR_Fin jmulR_Fin jdivR_Fin
      jsqrtR_Fin)

lemma gravityDampingStepR_Fin: "gravityDampingStepR Fin = gravityDampingStep"
  by (intro ext)
    (simp add: gravityDampingStepR_def gravityDampingStep_def vincR_def vinc_def vdecR_def
      vdec_def vmulR_def vmul_def jsubR_def jsub_def jaddR_Fin jmulR_Fin)

lemma integrateStepR_Fin: "integrateStepR Fin = integrateStep"
  by (intro ext)
    (simp add: integrateStepR_def integrateStep_def vincR_def vinc_def vmulR_def vmul_def
      vdivR_def vdiv_def jaddR_Fin jmulR_Fin jdivR_Fin)

lemma collideAxisR_Fin: "collideAxisR Fin = collideAxis"
  by (intro ext)
    (simp add: collideAxisR_def collideAxis_def jmulR_Fin Let_def split: prod.splits)

lemma collideStepR_Fin: "collideStepR Fin = collideStep"
  by (intro ext) (simp add: collideStepR_def collideStep_def collideAxisR_Fin)

lemma SimTimeStepR_Fin: "SimTimeStepR Fin = SimTimeStep"
  by (intro ext)
    (simp add: SimTimeStepR_def SimTimeStep_def integratedR_def integrated_def totalForcesR_def
      totalForces_def springForcesR_def springForces_def collideR_def collide_def
      collideStepR_Fin springStepR_Fin gravityDampingStepR_Fin integrateStepR_Fin
      split: sum.splits)

lemma repeatSimTimeStepR_Fin:
  "repeatSimTimeStepR Fin n dt ps vs ss k d m g r = repeatSimTimeStep n dt ps vs ss k d m g r"
  by (induction n arbitrary: ps vs) (simp_all add: SimTimeStepR_Fin split: sum.splits)

lemma springForcesR_Fin: "springForcesR Fin = springForces"
  by (intro ext) (simp add: springForcesR_def springForces_def springStepR_Fin)

lemma totalForcesR_Fin: "totalForcesR Fin = totalForces"
  by (intro ext)
    (simp add: totalForcesR_def totalForces_def springForcesR_Fin gravityDampingStepR_Fin
      split: sum.splits)

lemma vdivR_Fin: "vdivR Fin = vdiv"
  by (intro ext) (simp add: vdivR_def vdiv_def jdivR_Fin)

lemma vsubR_Fin: "vsubR Fin = vsub"
  by (intro ext) (simp add: vsubR_def vsub_def jsubR_def jsub_def jaddR_Fin)

lemma vlenR_Fin: "vlenR Fin = vlen"
  by (intro ext) (simp add: vlenR_def vlen_def jsqrtR_Fin jaddR_Fin jmulR_Fin)

lemma vunitR_Fin: "vunitR Fin = vunit"
  by (intro ext) (simp add: vunitR_def vunit_def vdivR_Fin vlenR_Fin)

section \<open>The loops under rounding\<close>

lemma springStepR_length:
  assumes "springStepR rnd k ps s fs = Inr fs'"
  shows "length fs' = length fs"
  using assms by (auto simp: springStepR_def Let_def split: if_splits)

lemma springLoopR_length:
  assumes "foldE (springStepR rnd k ps) ss fs = Inr fs'"
  shows "length fs' = length fs"
  using assms
proof (induction ss arbitrary: fs)
  case Nil
  then show ?case by simp
next
  case (Cons s ss)
  then show ?case
    by (auto split: sum.splits dest: springStepR_length)
qed

lemma gravityLoopR:
  assumes "n \<le> length fs" "n \<le> length vs"
  shows "foldE (gravityDampingStepR rnd d m g vs) [0..<n] fs
         = Inr (map (\<lambda>j. if j < n
                          then vdecR rnd (vincR rnd (fs ! j) (vmulR rnd g m)) (vmulR rnd (vs ! j) d)
                          else fs ! j) [0..<length fs])"
  using assms
proof (induction n)
  case 0
  then show ?case by (simp add: map_nth)
next
  case (Suc n)
  then show ?case
    by (auto simp: foldE_append gravityDampingStepR_def nth_list_update less_Suc_eq
        intro!: nth_equalityI)
qed

lemma totalForcesR_length:
  assumes "totalForcesR rnd ps vs ss k d m g = Inr forces" "length vs = length ps"
  shows "length forces = length ps"
proof -
  from assms(1) obtain F where F: "springForcesR rnd k ps ss = Inr F"
    and G: "foldE (gravityDampingStepR rnd d m g vs) [0..<length ps] F = Inr forces"
    by (auto simp: totalForcesR_def split: sum.splits)
  from F have len: "length F = length ps"
    using springLoopR_length [of rnd k ps ss "replicate (length ps) vzero" F]
    by (simp add: springForcesR_def)
  from G gravityLoopR [of "length ps" F vs rnd d m g] len assms(2) show ?thesis
    by auto
qed

lemma integrateLoopR:
  assumes "n \<le> length ps" "n \<le> length vs"
  shows "fold (integrateStepR rnd dt m F) [0..<n] (ps, vs)
         = (map (\<lambda>j. if j < n
                      then vincR rnd (ps ! j)
                             (vmulR rnd (vincR rnd (vs ! j)
                                (vmulR rnd (vdivR rnd (F ! j) m) dt)) dt)
                      else ps ! j) [0..<length ps],
            map (\<lambda>j. if j < n then vincR rnd (vs ! j) (vmulR rnd (vdivR rnd (F ! j) m) dt)
                      else vs ! j) [0..<length vs])"
  using assms
proof (induction n)
  case 0
  then show ?case by (simp add: map_nth)
next
  case (Suc n)
  then show ?case
    by (auto simp: integrateStepR_def Let_def nth_list_update less_Suc_eq intro!: nth_equalityI)
qed

lemma inBox_getAxis: "inBox p \<Longrightarrow> inBounds (getAxis p a)"
  by (cases a) (simp_all add: inBox_def)

lemma inBounds_no_wall: "inBounds c \<Longrightarrow> \<not> jlt c minBound \<and> \<not> jgt c maxBound"
  by (cases c) (auto simp: minBound_def maxBound_def jgt_def)

lemma collideAxisR_inBox:
  assumes "inBox (ps ! i)"
  shows "collideAxisR rnd r i a (ps, vs) = (ps, vs)"
  using inBounds_no_wall [OF inBox_getAxis [OF assms, of a]]
  by (simp add: collideAxisR_def)

lemma collideStepR_inBox:
  assumes "inBox (ps ! i)"
  shows "collideStepR rnd r i (ps, vs) = (ps, vs)"
  using assms by (simp add: collideStepR_def collideAxisR_inBox)

lemma collideLoopR_inBox:
  assumes "list_all inBox ps" "n \<le> length ps"
  shows "fold (collideStepR rnd r) [0..<n] (ps, vs) = (ps, vs)"
  using assms(2)
proof (induction n)
  case 0
  then show ?case by simp
next
  case (Suc n)
  then have "inBox (ps ! n)"
    using assms(1) by (simp add: list_all_length)
  with Suc show ?case
    by (simp add: collideStepR_inBox)
qed

lemma collideR_inBox:
  assumes "list_all inBox ps"
  shows "collideR rnd r (ps, vs) = (ps, vs)"
  using collideLoopR_inBox [OF assms, of "length ps" rnd r vs] by (simp add: collideR_def)

section \<open>Zeros under rounding\<close>

lemma isFin_iff: "isFin a \<longleftrightarrow> (\<exists>r. a = Fin r)"
  by (cases a) simp_all

lemma vfin_iff: "vfin v \<longleftrightarrow> (\<exists>a b c. v = Vec3 (Fin a) (Fin b) (Fin c))"
  by (cases v) (auto simp: vfin_def isFin_iff)

lemma isDouble_iff: "isDouble rnd a \<longleftrightarrow> (\<exists>r. a = Fin r \<and> rnd r = Fin r)"
  by (cases a) simp_all

lemma vDouble_iff:
  "vDouble rnd v \<longleftrightarrow>
     (\<exists>a b c. v = Vec3 (Fin a) (Fin b) (Fin c) \<and> rnd a = Fin a \<and> rnd b = Fin b \<and> rnd c = Fin c)"
  by (cases v) (auto simp: vDouble_def isDouble_iff)

lemma vmulR_zero:
  assumes "rnd 0 = Fin 0" "vfin a"
  shows "vmulR rnd a (Fin 0) = vzero"
  using assms by (auto simp: vfin_iff vmulR_def vzero_def)

lemma vincR_vzero:
  assumes "vDouble rnd a"
  shows "vincR rnd a vzero = a"
  using assms by (auto simp: vDouble_iff vincR_def vzero_def)

lemma vDouble_vfin: "vDouble rnd a \<Longrightarrow> vfin a"
  by (auto simp: vDouble_iff vfin_iff)

lemma vDouble_vzero: "rnd 0 = Fin 0 \<Longrightarrow> vDouble rnd vzero"
  by (simp add: vDouble_def vzero_def)

lemma vmulR_vzero: "rnd 0 = Fin 0 \<Longrightarrow> isFin f \<Longrightarrow> vmulR rnd vzero f = vzero"
  by (auto simp: isFin_iff vmulR_def vzero_def)

lemma vdivR_vzero: "rnd 0 = Fin 0 \<Longrightarrow> isFin f \<Longrightarrow> f \<noteq> Fin 0 \<Longrightarrow> vdivR rnd vzero f = vzero"
  by (cases f) (auto simp: vdivR_def vzero_def)

lemma vdecR_vzero: "rnd 0 = Fin 0 \<Longrightarrow> vdecR rnd vzero vzero = vzero"
  by (simp add: vdecR_def vzero_def jsubR_def)

lemma springForceR_at_rest:
  assumes "rnd 0 = Fin 0" "vlenR rnd (vsubR rnd q p) = r" "isFin r"
    and "vfin (vunitR rnd (vsubR rnd q p))" "isFin k"
  shows "springForceR rnd k p q r = vzero"
proof -
  from assms(3) obtain l where l: "r = Fin l" by (auto simp: isFin_iff)
  from assms(5) obtain kk where k: "k = Fin kk" by (auto simp: isFin_iff)
  have m: "jmulR rnd k (jsubR rnd r r) = Fin 0"
    using assms(1) by (simp add: l k jsubR_def)
  show ?thesis
    using assms(1,4) by (simp add: springForceR_def Let_def assms(2) m vmulR_zero)
qed

lemma equilibrium_forces:
  assumes "rnd 0 = Fin 0" "p0 s < 2" "p1 s < 2" "p0 s \<noteq> p1 s"
    and "vlenR rnd (vsubR rnd ([a, b] ! p1 s) ([a, b] ! p0 s)) = rest s" "isFin (rest s)"
    and "vfin (vunitR rnd (vsubR rnd ([a, b] ! p1 s) ([a, b] ! p0 s)))" "isFin stiffness"
  shows "springForcesR rnd stiffness [a, b] [s] = Inr [vzero, vzero]"
proof -
  have f: "springForceR rnd stiffness ([a, b] ! p0 s) ([a, b] ! p1 s) (rest s) = vzero"
    using assms(1,5,6,7,8) by (rule springForceR_at_rest)
  have z: "vDouble rnd vzero" using assms(1) by (rule vDouble_vzero)
  from assms(2,3,4) have "p0 s = 0 \<and> p1 s = 1 \<or> p0 s = 1 \<and> p1 s = 0"
    by auto
  then show ?thesis
    using f assms(1) z
    by (auto simp: springForcesR_def springStepR_def Let_def numeral_2_eq_2 vdecR_vzero
        vincR_vzero)
qed

lemma equilibrium_step:
  assumes "rnd 0 = Fin 0" "vDouble rnd a" "vDouble rnd b" "inBox a" "inBox b"
    and "p0 s < 2" "p1 s < 2" "p0 s \<noteq> p1 s"
    and "vlenR rnd (vsubR rnd ([a, b] ! p1 s) ([a, b] ! p0 s)) = rest s" "isFin (rest s)"
    and "vfin (vunitR rnd (vsubR rnd ([a, b] ! p1 s) ([a, b] ! p0 s)))"
    and "isFin stiffness" "isFin particleMass" "particleMass \<noteq> Fin 0" "isFin (clampDt dt)"
  shows "snd (SimTimeStepR rnd dt [a, b] [vzero, vzero] [s] stiffness (Fin 0) particleMass vzero
                restitution) = Inr ([a, b], [vzero, vzero])"
proof -
  have F: "springForcesR rnd stiffness [a, b] [s] = Inr [vzero, vzero]"
    using assms(1,6,7,8,9,10,11,12) by (rule equilibrium_forces)
  have z: "vDouble rnd vzero" using assms(1) by (rule vDouble_vzero)
  have z0: "vmulR rnd vzero (Fin 0) = vzero"
    using assms(1) by (simp add: vmulR_vzero)
  have T: "totalForcesR rnd [a, b] [vzero, vzero] [s] stiffness (Fin 0) particleMass vzero
           = Inr [vzero, vzero]"
    using assms(1,13) z
    by (simp add: totalForcesR_def F upt_rec gravityDampingStepR_def z0 vmulR_vzero
        vincR_vzero vdecR_vzero)
  have I: "integratedR rnd (clampDt dt) [a, b] [vzero, vzero] [s] stiffness (Fin 0) particleMass
             vzero = Inr ([a, b], [vzero, vzero])"
    using assms(1,2,3,13,14,15) z
    by (simp add: integratedR_def T upt_rec integrateStepR_def Let_def vdivR_vzero vmulR_vzero
        vincR_vzero)
  have C: "collideR rnd restitution ([a, b], [vzero, vzero]) = ([a, b], [vzero, vzero])"
    using assms(4,5) by (intro collideR_inBox) simp
  show ?thesis
    by (simp add: SimTimeStepR_def I C)
qed


section \<open>The time step guard\<close>

text \<open>
  C4: a step with any \<open>dt\<close> above 0.05 leaves the arrays exactly as the step with
  \<open>dt = 0.05\<close> leaves them (or throws the same exception), and logs one warning, which the
  step with \<open>dt = 0.05\<close> does not.
\<close>

theorem SimTimeStep_dt_clamped:
  assumes "jgt dt (Fin (1 / 20))"
  shows "snd (SimTimeStep dt positions velocities springs stiffness damping particleMass gravity
                restitution)
         = snd (SimTimeStep (Fin (1 / 20)) positions velocities springs stiffness damping
                  particleMass gravity restitution)
       \<and> fst (SimTimeStep dt positions velocities springs stiffness damping particleMass gravity
                restitution) = [clampWarning]
       \<and> fst (SimTimeStep (Fin (1 / 20)) positions velocities springs stiffness damping
                particleMass gravity restitution) = []"
  using assms by (simp add: SimTimeStep_def clampDt_def dtWarnings_def maxDt_def jgt_def)

theorem SimTimeStep_dt_clamped_witness:
  "jgt (Fin 1) (Fin (1 / 20))
   \<and> snd (SimTimeStep (Fin 1) [Vec3 (Fin 0) (Fin 0) (Fin 0)] [Vec3 (Fin 1) (Fin 0) (Fin 0)] []
            (Fin 1) (Fin 0) (Fin 1) (Vec3 (Fin 0) (Fin (- 10)) (Fin 0)) (Fin (1 / 2)))
     = snd (SimTimeStep (Fin (1 / 20)) [Vec3 (Fin 0) (Fin 0) (Fin 0)]
              [Vec3 (Fin 1) (Fin 0) (Fin 0)] []
              (Fin 1) (Fin 0) (Fin 1) (Vec3 (Fin 0) (Fin (- 10)) (Fin 0)) (Fin (1 / 2)))
   \<and> fst (SimTimeStep (Fin 1) [Vec3 (Fin 0) (Fin 0) (Fin 0)] [Vec3 (Fin 1) (Fin 0) (Fin 0)] []
            (Fin 1) (Fin 0) (Fin 1) (Vec3 (Fin 0) (Fin (- 10)) (Fin 0)) (Fin (1 / 2)))
     = [clampWarning]"
proof -
  have h: "jgt (Fin 1) (Fin (1 / 20))"
    by (simp add: jgt_def)
  show ?thesis
    using h SimTimeStep_dt_clamped [OF h] by simp
qed

section \<open>The spring forces\<close>



section \<open>The number of particles\<close>

text \<open>
  C7: on a valid input (velocities as many as positions, every spring between two particles
  of the array) the step returns, and it leaves as many positions and as many velocities as
  it found; this holds for every \<open>dt\<close> and every mass, so for \<open>dt\<close> at most 0.05 and a
  positive mass.
\<close>

theorem SimTimeStep_lengths:
  assumes "length velocities = length positions"
    and "validSprings positions springs"
  shows "\<exists>positions1 velocities1.
           snd (SimTimeStep dt positions velocities springs stiffness damping particleMass
                  gravity restitution) = Inr (positions1, velocities1)
         \<and> length positions1 = length positions
         \<and> length velocities1 = length velocities"
proof -
  from assms(2) have "\<forall>s \<in> set springs. p0 s < length positions \<and> p1 s < length positions"
    by (simp add: validSprings_iff)
  from springForces_Inr [OF this] obtain F where
    F: "springForces stiffness positions springs = Inr F" "length F = length positions"
    by blast
  have le: "length positions \<le> length velocities"
    using assms(1) by simp
  show ?thesis
    using integrated_eq [OF F le, of "clampDt dt" damping particleMass gravity] assms(1)
    by (simp add: SimTimeStep_def collide_eq)
qed

theorem SimTimeStep_lengths_witness:
  "length [Vec3 (Fin 0) (Fin 0) (Fin 0), Vec3 (Fin 1) (Fin 0) (Fin 0)] = length [Vec3 (Fin 0) (Fin 0) (Fin 0), Vec3 (Fin 2) (Fin 0) (Fin 0)]
   \<and> validSprings [Vec3 (Fin 0) (Fin 0) (Fin 0), Vec3 (Fin 2) (Fin 0) (Fin 0)] [\<lparr>p0 = 0, p1 = 1, rest = Fin 1\<rparr>]
   \<and> (\<exists>positions1 velocities1.
         snd (SimTimeStep (Fin (1 / 100)) [Vec3 (Fin 0) (Fin 0) (Fin 0), Vec3 (Fin 2) (Fin 0) (Fin 0)]
                [Vec3 (Fin 0) (Fin 0) (Fin 0), Vec3 (Fin 1) (Fin 0) (Fin 0)]
                [\<lparr>p0 = 0, p1 = 1, rest = Fin 1\<rparr>] (Fin 3) (Fin (1 / 10)) (Fin 2)
                (Vec3 (Fin 0) (Fin (- 10)) (Fin 0)) (Fin (1 / 2)))
           = Inr (positions1, velocities1)
         \<and> length positions1 = 2 \<and> length velocities1 = 2)"
proof -
  have h1: "length [Vec3 (Fin 0) (Fin 0) (Fin 0), Vec3 (Fin 1) (Fin 0) (Fin 0)] = length [Vec3 (Fin 0) (Fin 0) (Fin 0), Vec3 (Fin 2) (Fin 0) (Fin 0)]"
    by simp
  have h2: "validSprings [Vec3 (Fin 0) (Fin 0) (Fin 0), Vec3 (Fin 2) (Fin 0) (Fin 0)] [\<lparr>p0 = 0, p1 = 1, rest = Fin 1\<rparr>]"
    by (simp add: validSprings_def)
  show ?thesis
    using h1 h2 SimTimeStep_lengths [OF h1 h2, of "Fin (1 / 100)" "Fin 3" "Fin (1 / 10)" "Fin 2"
        "Vec3 (Fin 0) (Fin (- 10)) (Fin 0)" "Fin (1 / 2)"]
    by (simp add: numeral_2_eq_2)
qed

section \<open>Gravity, damping and the integration\<close>

text \<open>
  C2: on a valid input the step reaches the integration, and for every particle \<open>i\<close> the
  force it integrates is the accumulated spring force plus \<open>gravity * particleMass\<close> minus
  \<open>velocities[i] * damping\<close>; the acceleration is that force divided by the mass; the new
  velocity is the old one plus acceleration times \<open>dt\<close>; and the new position is the old
  one plus the new velocity times \<open>dt\<close>. Here \<open>dt\<close> is the value after the guard, and the
  walls are applied to the state so obtained.
\<close>

theorem SimTimeStep_integration:
  assumes "length velocities = length positions"
    and "validSprings positions springs"
  shows "\<exists>forces positions1 velocities1.
           springForces stiffness positions springs = Inr forces
         \<and> integrated (clampDt dt) positions velocities springs stiffness damping particleMass
             gravity = Inr (positions1, velocities1)
         \<and> snd (SimTimeStep dt positions velocities springs stiffness damping particleMass
                  gravity restitution) = Inr (collide restitution (positions1, velocities1))
         \<and> length forces = length positions
         \<and> length positions1 = length positions
         \<and> length velocities1 = length positions
         \<and> (\<forall>i < length positions.
               velocities1 ! i
               = vinc (velocities ! i)
                   (vmul (vdiv (vdec (vinc (forces ! i) (vmul gravity particleMass))
                                     (vmul (velocities ! i) damping))
                               particleMass)
                         (clampDt dt))
             \<and> positions1 ! i = vinc (positions ! i) (vmul (velocities1 ! i) (clampDt dt)))"
proof -
  from assms(2) have "\<forall>s \<in> set springs. p0 s < length positions \<and> p1 s < length positions"
    by (simp add: validSprings_iff)
  from springForces_Inr [OF this] obtain F where
    F: "springForces stiffness positions springs = Inr F" "length F = length positions"
    by blast
  have le: "length positions \<le> length velocities"
    using assms(1) by simp
  show ?thesis
    using integrated_eq [OF F le, of "clampDt dt" damping particleMass gravity] F assms(1)
    by (simp add: SimTimeStep_def)
qed


theorem SimTimeStep_integration_witness:
  "length [Vec3 (Fin 0) (Fin 0) (Fin 0), Vec3 (Fin 1) (Fin 0) (Fin 0)] = length [Vec3 (Fin 0) (Fin 0) (Fin 0), Vec3 (Fin 2) (Fin 0) (Fin 0)]
   \<and> validSprings [Vec3 (Fin 0) (Fin 0) (Fin 0), Vec3 (Fin 2) (Fin 0) (Fin 0)] [\<lparr>p0 = 0, p1 = 1, rest = Fin 1\<rparr>]
   \<and> (\<exists>forces positions1 velocities1.
         springForces (Fin 3) [Vec3 (Fin 0) (Fin 0) (Fin 0), Vec3 (Fin 2) (Fin 0) (Fin 0)] [\<lparr>p0 = 0, p1 = 1, rest = Fin 1\<rparr>] = Inr forces
       \<and> integrated (clampDt (Fin (1 / 20))) [Vec3 (Fin 0) (Fin 0) (Fin 0), Vec3 (Fin 2) (Fin 0) (Fin 0)] [Vec3 (Fin 0) (Fin 0) (Fin 0), Vec3 (Fin 1) (Fin 0) (Fin 0)] [\<lparr>p0 = 0, p1 = 1, rest = Fin 1\<rparr>] (Fin 3) (Fin 0) (Fin 1)
           (Vec3 (Fin 0) (Fin (- 10)) (Fin 0)) = Inr (positions1, velocities1)
       \<and> velocities1 ! 1
         = vinc ([Vec3 (Fin 0) (Fin 0) (Fin 0), Vec3 (Fin 1) (Fin 0) (Fin 0)] ! 1)
             (vmul (vdiv (vdec (vinc (forces ! 1) (vmul (Vec3 (Fin 0) (Fin (- 10)) (Fin 0)) (Fin 1)))
                               (vmul ([Vec3 (Fin 0) (Fin 0) (Fin 0), Vec3 (Fin 1) (Fin 0) (Fin 0)] ! 1) (Fin 0)))
                         (Fin 1))
                   (clampDt (Fin (1 / 20))))
       \<and> positions1 ! 1 = vinc ([Vec3 (Fin 0) (Fin 0) (Fin 0), Vec3 (Fin 2) (Fin 0) (Fin 0)] ! 1) (vmul (velocities1 ! 1) (clampDt (Fin (1 / 20)))))"
proof -
  have h1: "length [Vec3 (Fin 0) (Fin 0) (Fin 0), Vec3 (Fin 1) (Fin 0) (Fin 0)] = length [Vec3 (Fin 0) (Fin 0) (Fin 0), Vec3 (Fin 2) (Fin 0) (Fin 0)]"
    by simp
  have h2: "validSprings [Vec3 (Fin 0) (Fin 0) (Fin 0), Vec3 (Fin 2) (Fin 0) (Fin 0)] [\<lparr>p0 = 0, p1 = 1, rest = Fin 1\<rparr>]"
    by (simp add: validSprings_def)
  have i: "(1::nat) < length [Vec3 (Fin 0) (Fin 0) (Fin 0), Vec3 (Fin 2) (Fin 0) (Fin 0)]"
    by simp
  from SimTimeStep_integration [OF h1 h2, of "Fin 3" "Fin (1 / 20)" "Fin 0" "Fin 1"
      "Vec3 (Fin 0) (Fin (- 10)) (Fin 0)" "Fin (1 / 2)"] i h1 h2
  show ?thesis
    by blast
qed

section \<open>The walls of the box\<close>

text \<open>
  C3: when the step reaches the walls with the integrated positions and velocities, then for
  every particle and each of the three axes on its own: a position coordinate below -1
  becomes exactly -1, and the velocity coordinate of that axis becomes itself times
  \<open>-restitution\<close> if it is negative and stays otherwise; a position coordinate above 1
  becomes exactly 1, and the velocity coordinate becomes itself times \<open>-restitution\<close> if it
  is positive and stays otherwise; in every other case both coordinates stay.
\<close>

theorem SimTimeStep_collision:
  assumes "integrated (clampDt dt) positions velocities springs stiffness damping particleMass
             gravity = Inr (positions1, velocities1)"
    and "i < length positions"
  shows "\<exists>positions2 velocities2.
           snd (SimTimeStep dt positions velocities springs stiffness damping particleMass
                  gravity restitution) = Inr (positions2, velocities2)
         \<and> getAxis (positions2 ! i) a
           = (if jlt (getAxis (positions1 ! i) a) (Fin (- 1)) then Fin (- 1)
              else if jgt (getAxis (positions1 ! i) a) (Fin 1) then Fin 1
              else getAxis (positions1 ! i) a)
         \<and> getAxis (velocities2 ! i) a
           = (if jlt (getAxis (positions1 ! i) a) (Fin (- 1))
              then (if jlt (getAxis (velocities1 ! i) a) (Fin 0)
                    then jmul (getAxis (velocities1 ! i) a) (jneg restitution)
                    else getAxis (velocities1 ! i) a)
              else if jgt (getAxis (positions1 ! i) a) (Fin 1)
              then (if jgt (getAxis (velocities1 ! i) a) (Fin 0)
                    then jmul (getAxis (velocities1 ! i) a) (jneg restitution)
                    else getAxis (velocities1 ! i) a)
              else getAxis (velocities1 ! i) a)"
proof -
  from integrated_lengths [OF assms(1)] have
    len: "length positions1 = length positions" "length velocities1 = length velocities"
      "length positions \<le> length velocities"
    by simp_all
  then have le: "length positions1 \<le> length velocities1" by simp
  have "snd (SimTimeStep dt positions velocities springs stiffness damping particleMass
               gravity restitution)
        = Inr (map clampedVec positions1,
               map (\<lambda>j. if j < length positions1
                         then bouncedVec restitution (positions1 ! j) (velocities1 ! j)
                         else velocities1 ! j) [0..<length velocities1])"
    using assms(1) collide_eq [OF le, of restitution] by (simp add: SimTimeStep_def)
  then show ?thesis
    using assms(2) len
    by (simp add: getAxis_clampedVec getAxis_bouncedVec clampedPos_def bouncedVel_def
        minBound_def maxBound_def)
qed

theorem SimTimeStep_collision_witness:
  "integrated (clampDt (Fin (1 / 20))) [Vec3 (Fin 0) (Fin 0) (Fin 0), Vec3 (Fin 2) (Fin 0) (Fin 0)] [Vec3 (Fin 0) (Fin 0) (Fin 0), Vec3 (Fin 1) (Fin 0) (Fin 0)] [\<lparr>p0 = 0, p1 = 1, rest = Fin 1\<rparr>] (Fin 3) (Fin 0) (Fin 1)
     (Vec3 (Fin 0) (Fin (- 10)) (Fin 0))
   = Inr ([Vec3 (Fin (3 / 400)) (Fin (- (1 / 40))) (Fin 0),
           Vec3 (Fin (817 / 400)) (Fin (- (1 / 40))) (Fin 0)],
          [Vec3 (Fin (3 / 20)) (Fin (- (1 / 2))) (Fin 0),
           Vec3 (Fin (17 / 20)) (Fin (- (1 / 2))) (Fin 0)])
   \<and> (1::nat) < length [Vec3 (Fin 0) (Fin 0) (Fin 0), Vec3 (Fin 2) (Fin 0) (Fin 0)]
   \<and> (\<exists>positions2 velocities2.
         snd (SimTimeStep (Fin (1 / 20)) [Vec3 (Fin 0) (Fin 0) (Fin 0), Vec3 (Fin 2) (Fin 0) (Fin 0)] [Vec3 (Fin 0) (Fin 0) (Fin 0), Vec3 (Fin 1) (Fin 0) (Fin 0)] [\<lparr>p0 = 0, p1 = 1, rest = Fin 1\<rparr>] (Fin 3) (Fin 0) (Fin 1)
                (Vec3 (Fin 0) (Fin (- 10)) (Fin 0)) (Fin (1 / 2)))
         = Inr (positions2, velocities2)
       \<and> getAxis (positions2 ! 1) AxisX = Fin 1
       \<and> getAxis (velocities2 ! 1) AxisX = Fin (- (17 / 40))
       \<and> getAxis (positions2 ! 1) AxisY = Fin (- (1 / 40))
       \<and> getAxis (velocities2 ! 1) AxisY = Fin (- (1 / 2)))"
proof -
  have h1: "integrated (clampDt (Fin (1 / 20))) [Vec3 (Fin 0) (Fin 0) (Fin 0), Vec3 (Fin 2) (Fin 0) (Fin 0)] [Vec3 (Fin 0) (Fin 0) (Fin 0), Vec3 (Fin 1) (Fin 0) (Fin 0)] [\<lparr>p0 = 0, p1 = 1, rest = Fin 1\<rparr>] (Fin 3) (Fin 0) (Fin 1)
     (Vec3 (Fin 0) (Fin (- 10)) (Fin 0))
   = Inr ([Vec3 (Fin (3 / 400)) (Fin (- (1 / 40))) (Fin 0),
           Vec3 (Fin (817 / 400)) (Fin (- (1 / 40))) (Fin 0)],
          [Vec3 (Fin (3 / 20)) (Fin (- (1 / 2))) (Fin 0),
           Vec3 (Fin (17 / 20)) (Fin (- (1 / 2))) (Fin 0)])"
    by (simp add: sim_eval)
  have h2: "(1::nat) < length [Vec3 (Fin 0) (Fin 0) (Fin 0), Vec3 (Fin 2) (Fin 0) (Fin 0)]"
    by simp
  from SimTimeStep_collision [OF h1 h2, of "Fin (1 / 2)" AxisX]
    SimTimeStep_collision [OF h1 h2, of "Fin (1 / 2)" AxisY]
  have "\<exists>positions2 velocities2.
         snd (SimTimeStep (Fin (1 / 20)) [Vec3 (Fin 0) (Fin 0) (Fin 0), Vec3 (Fin 2) (Fin 0) (Fin 0)] [Vec3 (Fin 0) (Fin 0) (Fin 0), Vec3 (Fin 1) (Fin 0) (Fin 0)] [\<lparr>p0 = 0, p1 = 1, rest = Fin 1\<rparr>] (Fin 3) (Fin 0) (Fin 1)
                (Vec3 (Fin 0) (Fin (- 10)) (Fin 0)) (Fin (1 / 2)))
         = Inr (positions2, velocities2)
       \<and> getAxis (positions2 ! 1) AxisX = Fin 1
       \<and> getAxis (velocities2 ! 1) AxisX = Fin (- (17 / 40))
       \<and> getAxis (positions2 ! 1) AxisY = Fin (- (1 / 40))
       \<and> getAxis (velocities2 ! 1) AxisY = Fin (- (1 / 2))"
    by (auto simp: jgt_def)
  with h1 h2 show ?thesis
    by blast
qed

text \<open>
  C9: whenever the step returns, every coordinate of every position it leaves is a number
  between -1 and 1, walls included, unless it is NaN; so when the arithmetic of the step
  stays finite, every particle is in the box, wherever it was before the step.
\<close>

theorem SimTimeStep_in_box:
  assumes "snd (SimTimeStep dt positions velocities springs stiffness damping particleMass
                  gravity restitution) = Inr (positions2, velocities2)"
    and "i < length positions2"
    and "getAxis (positions2 ! i) a \<noteq> NaN"
  shows "\<exists>c. getAxis (positions2 ! i) a = Fin c \<and> - 1 \<le> c \<and> c \<le> 1"
proof -
  from SimTimeStep_Inr_D [OF assms(1)] obtain ps1 vs1 where
    i: "integrated (clampDt dt) positions velocities springs stiffness damping particleMass
          gravity = Inr (ps1, vs1)"
    and c: "(positions2, velocities2) = collide restitution (ps1, vs1)"
    by blast
  from integrated_lengths [OF i] have "length ps1 \<le> length vs1" by simp
  with c have "positions2 = map clampedVec ps1"
    by (simp add: collide_eq)
  with assms(2) have "getAxis (positions2 ! i) a = clampedPos (getAxis (ps1 ! i) a)"
    by (simp add: getAxis_clampedVec)
  with assms(3) clampedPos_cases [of "getAxis (ps1 ! i) a"] show ?thesis
    by auto
qed

theorem SimTimeStep_in_box_witness:
  "snd (SimTimeStep (Fin (1 / 20))
          [Vec3 (Fin 0) (Fin 0) (Fin 0), Vec3 (Fin 2) (Fin 0) (Fin 0)]
          [Vec3 (Fin 0) (Fin 0) (Fin 0), Vec3 (Fin 1) (Fin 0) (Fin 0)]
          [\<lparr>p0 = 0, p1 = 1, rest = Fin 1\<rparr>] (Fin 3) (Fin 0) (Fin 1)
          (Vec3 (Fin 0) (Fin (- 10)) (Fin 0)) (Fin (1 / 2)))
     = Inr ([Vec3 (Fin (3 / 400)) (Fin (- (1 / 40))) (Fin 0),
             Vec3 (Fin 1) (Fin (- (1 / 40))) (Fin 0)],
            [Vec3 (Fin (3 / 20)) (Fin (- (1 / 2))) (Fin 0),
             Vec3 (Fin (- (17 / 40))) (Fin (- (1 / 2))) (Fin 0)])
   \<and> (1::nat) < length [Vec3 (Fin (3 / 400)) (Fin (- (1 / 40))) (Fin 0),
             Vec3 (Fin 1) (Fin (- (1 / 40))) (Fin 0)]
   \<and> getAxis ([Vec3 (Fin (3 / 400)) (Fin (- (1 / 40))) (Fin 0),
                Vec3 (Fin 1) (Fin (- (1 / 40))) (Fin 0)] ! 1) AxisX \<noteq> NaN
   \<and> (\<exists>c. getAxis ([Vec3 (Fin (3 / 400)) (Fin (- (1 / 40))) (Fin 0),
                Vec3 (Fin 1) (Fin (- (1 / 40))) (Fin 0)] ! 1) AxisX = Fin c
          \<and> - 1 \<le> c \<and> c \<le> 1)"
proof -
  have h1: "snd (SimTimeStep (Fin (1 / 20))
          [Vec3 (Fin 0) (Fin 0) (Fin 0), Vec3 (Fin 2) (Fin 0) (Fin 0)]
          [Vec3 (Fin 0) (Fin 0) (Fin 0), Vec3 (Fin 1) (Fin 0) (Fin 0)]
          [\<lparr>p0 = 0, p1 = 1, rest = Fin 1\<rparr>] (Fin 3) (Fin 0) (Fin 1)
          (Vec3 (Fin 0) (Fin (- 10)) (Fin 0)) (Fin (1 / 2)))
     = Inr ([Vec3 (Fin (3 / 400)) (Fin (- (1 / 40))) (Fin 0),
             Vec3 (Fin 1) (Fin (- (1 / 40))) (Fin 0)],
            [Vec3 (Fin (3 / 20)) (Fin (- (1 / 2))) (Fin 0),
             Vec3 (Fin (- (17 / 40))) (Fin (- (1 / 2))) (Fin 0)])"
    by (simp add: sim_eval)
  have h2: "(1::nat) < length [Vec3 (Fin (3 / 400)) (Fin (- (1 / 40))) (Fin 0),
             Vec3 (Fin 1) (Fin (- (1 / 40))) (Fin 0)]"
    by simp
  have h3: "getAxis ([Vec3 (Fin (3 / 400)) (Fin (- (1 / 40))) (Fin 0),
                Vec3 (Fin 1) (Fin (- (1 / 40))) (Fin 0)] ! 1) AxisX \<noteq> NaN"
    by simp
  from SimTimeStep_in_box [OF h1 h2 h3] h1 h2 h3 show ?thesis
    by blast
qed

section \<open>A step of no duration\<close>

text \<open>
  C6, as stated: a step with \<open>dt = 0\<close> leaves every position and velocity unchanged. The
  walls are applied whatever \<open>dt\<close> is: a particle at \<open>x = 2\<close> moving outwards is put on
  the wall and its velocity is reversed, though no time passes.
\<close>

theorem zero_step_outside_box_counterexample:
  "SimTimeStep (Fin 0) [Vec3 (Fin 2) (Fin 0) (Fin 0)] [Vec3 (Fin 1) (Fin 0) (Fin 0)] []
     (Fin 1) (Fin 0) (Fin 1) (Vec3 (Fin 0) (Fin (- 10)) (Fin 0)) (Fin (1 / 2))
   = ([], Inr ([Vec3 (Fin 1) (Fin 0) (Fin 0)], [Vec3 (Fin (- (1 / 2))) (Fin 0) (Fin 0)]))
   \<and> snd (SimTimeStep (Fin 0) [Vec3 (Fin 2) (Fin 0) (Fin 0)] [Vec3 (Fin 1) (Fin 0) (Fin 0)] []
          (Fin 1) (Fin 0) (Fin 1) (Vec3 (Fin 0) (Fin (- 10)) (Fin 0)) (Fin (1 / 2)))
     \<noteq> Inr ([Vec3 (Fin 2) (Fin 0) (Fin 0)], [Vec3 (Fin 1) (Fin 0) (Fin 0)])"
  by (simp add: sim_eval)

text \<open>
  C6, amended: for every rounding that leaves 0 as it is, when the positions and the
  velocities are doubles, as many of the one as of the other, every particle is in the box,
  walls included, and the step reaches the integration with accelerations (the force divided
  by the mass) that are all finite, the step with \<open>dt = 0\<close> logs no warning and leaves
  every position and every velocity unchanged.
\<close>

theorem zero_step_unchanged:
  assumes "rnd 0 = Fin 0"
    and "length velocities = length positions"
    and "list_all (vDouble rnd) positions"
    and "list_all (vDouble rnd) velocities"
    and "list_all inBox positions"
    and "totalForcesR rnd positions velocities springs stiffness damping particleMass gravity
         = Inr forces"
    and "list_all (\<lambda>f. vfin (vdivR rnd f particleMass)) forces"
  shows "SimTimeStepR rnd (Fin 0) positions velocities springs stiffness damping particleMass
           gravity restitution = ([], Inr (positions, velocities))"
proof -
  have len: "length forces = length positions"
    using assms(6,2) by (rule totalForcesR_length)
  have dt: "clampDt (Fin 0) = Fin 0"
    by (simp add: clampDt_def maxDt_def jgt_def)
  have v: "vincR rnd (velocities ! j) (vmulR rnd (vdivR rnd (forces ! j) particleMass) (Fin 0))
           = velocities ! j" if "j < length positions" for j
  proof -
    have "vfin (vdivR rnd (forces ! j) particleMass)"
      using assms(7) that len by (simp add: list_all_length)
    then have "vmulR rnd (vdivR rnd (forces ! j) particleMass) (Fin 0) = vzero"
      using assms(1) by (simp add: vmulR_zero)
    moreover have "vDouble rnd (velocities ! j)"
      using assms(4,2) that by (simp add: list_all_length)
    ultimately show ?thesis
      by (simp add: vincR_vzero)
  qed
  have p: "vincR rnd (positions ! j) (vmulR rnd (velocities ! j) (Fin 0)) = positions ! j"
    if "j < length positions" for j
  proof -
    have "vDouble rnd (velocities ! j)" and pj: "vDouble rnd (positions ! j)"
      using assms(3,4,2) that by (simp_all add: list_all_length)
    then have "vmulR rnd (velocities ! j) (Fin 0) = vzero"
      using assms(1) by (simp add: vmulR_zero vDouble_vfin)
    then show ?thesis
      using pj by (simp add: vincR_vzero)
  qed
  have "fold (integrateStepR rnd (Fin 0) particleMass forces) [0..<length positions]
          (positions, velocities) = (positions, velocities)"
    using integrateLoopR [of "length positions" positions velocities rnd "Fin 0" particleMass
        forces] assms(2) v p
    by (auto intro!: nth_equalityI)
  then have "integratedR rnd (Fin 0) positions velocities springs stiffness damping particleMass
               gravity = Inr (positions, velocities)"
    using assms(6) by (simp add: integratedR_def)
  then show ?thesis
    using collideR_inBox [OF assms(5), of rnd restitution velocities]
    by (simp add: SimTimeStepR_def dt dtWarnings_def maxDt_def jgt_def)
qed

theorem zero_step_unchanged_witness:
  "Fin 0 = Fin 0
   \<and> length [Vec3 (Fin 0) (Fin 0) (Fin 0), Vec3 (Fin 1) (Fin 0) (Fin 0)]
     = length [Vec3 (Fin (- (1 / 2))) (Fin 0) (Fin 0), Vec3 (Fin (1 / 2)) (Fin 0) (Fin 0)]
   \<and> list_all (vDouble Fin)
        [Vec3 (Fin (- (1 / 2))) (Fin 0) (Fin 0), Vec3 (Fin (1 / 2)) (Fin 0) (Fin 0)]
   \<and> list_all (vDouble Fin) [Vec3 (Fin 0) (Fin 0) (Fin 0), Vec3 (Fin 1) (Fin 0) (Fin 0)]
   \<and> list_all inBox [Vec3 (Fin (- (1 / 2))) (Fin 0) (Fin 0), Vec3 (Fin (1 / 2)) (Fin 0) (Fin 0)]
   \<and> totalForcesR Fin
        [Vec3 (Fin (- (1 / 2))) (Fin 0) (Fin 0), Vec3 (Fin (1 / 2)) (Fin 0) (Fin 0)]
        [Vec3 (Fin 0) (Fin 0) (Fin 0), Vec3 (Fin 1) (Fin 0) (Fin 0)]
        [\<lparr>p0 = 0, p1 = 1, rest = Fin (1 / 2)\<rparr>] (Fin 2) (Fin (1 / 4)) (Fin 2)
        (Vec3 (Fin 0) (Fin (- 8)) (Fin 0))
     = Inr [Vec3 (Fin 1) (Fin (- 16)) (Fin 0), Vec3 (Fin (- (5 / 4))) (Fin (- 16)) (Fin 0)]
   \<and> list_all (\<lambda>f. vfin (vdivR Fin f (Fin 2)))
        [Vec3 (Fin 1) (Fin (- 16)) (Fin 0), Vec3 (Fin (- (5 / 4))) (Fin (- 16)) (Fin 0)]
   \<and> SimTimeStepR Fin (Fin 0)
        [Vec3 (Fin (- (1 / 2))) (Fin 0) (Fin 0), Vec3 (Fin (1 / 2)) (Fin 0) (Fin 0)]
        [Vec3 (Fin 0) (Fin 0) (Fin 0), Vec3 (Fin 1) (Fin 0) (Fin 0)]
        [\<lparr>p0 = 0, p1 = 1, rest = Fin (1 / 2)\<rparr>] (Fin 2) (Fin (1 / 4)) (Fin 2)
        (Vec3 (Fin 0) (Fin (- 8)) (Fin 0)) (Fin (1 / 2))
     = ([], Inr ([Vec3 (Fin (- (1 / 2))) (Fin 0) (Fin 0), Vec3 (Fin (1 / 2)) (Fin 0) (Fin 0)],
                 [Vec3 (Fin 0) (Fin 0) (Fin 0), Vec3 (Fin 1) (Fin 0) (Fin 0)]))"
proof -
  have h1: "Fin 0 = Fin 0"
    by simp
  have h2: "length [Vec3 (Fin 0) (Fin 0) (Fin 0), Vec3 (Fin 1) (Fin 0) (Fin 0)]
     = length [Vec3 (Fin (- (1 / 2))) (Fin 0) (Fin 0), Vec3 (Fin (1 / 2)) (Fin 0) (Fin 0)]"
    by simp
  have h3: "list_all (vDouble Fin)
        [Vec3 (Fin (- (1 / 2))) (Fin 0) (Fin 0), Vec3 (Fin (1 / 2)) (Fin 0) (Fin 0)]"
    by (simp add: vDouble_def)
  have h4: "list_all (vDouble Fin) [Vec3 (Fin 0) (Fin 0) (Fin 0), Vec3 (Fin 1) (Fin 0) (Fin 0)]"
    by (simp add: vDouble_def)
  have h5: "list_all inBox
        [Vec3 (Fin (- (1 / 2))) (Fin 0) (Fin 0), Vec3 (Fin (1 / 2)) (Fin 0) (Fin 0)]"
    by (simp add: inBox_def)
  have h6: "totalForcesR Fin
        [Vec3 (Fin (- (1 / 2))) (Fin 0) (Fin 0), Vec3 (Fin (1 / 2)) (Fin 0) (Fin 0)]
        [Vec3 (Fin 0) (Fin 0) (Fin 0), Vec3 (Fin 1) (Fin 0) (Fin 0)]
        [\<lparr>p0 = 0, p1 = 1, rest = Fin (1 / 2)\<rparr>] (Fin 2) (Fin (1 / 4)) (Fin 2)
        (Vec3 (Fin 0) (Fin (- 8)) (Fin 0))
     = Inr [Vec3 (Fin 1) (Fin (- 16)) (Fin 0), Vec3 (Fin (- (5 / 4))) (Fin (- 16)) (Fin 0)]"
    by (simp add: totalForcesR_Fin sim_eval)
  have h7: "list_all (\<lambda>f. vfin (vdivR Fin f (Fin 2)))
        [Vec3 (Fin 1) (Fin (- 16)) (Fin 0), Vec3 (Fin (- (5 / 4))) (Fin (- 16)) (Fin 0)]"
    by (simp add: vdivR_Fin vdiv_def vfin_def)
  from zero_step_unchanged [OF h1 h2 h3 h4 h5 h6 h7, of "Fin (1 / 2)"] h1 h2 h3 h4 h5 h6 h7
  show ?thesis
    by (intro conjI)
qed

section \<open>Two particles at rest\<close>

text \<open>
  C5, as stated: two particles with zero velocity at the rest length of their spring stay
  where they are. Outside the box they do not: the first step puts both on the wall.
\<close>

theorem equilibrium_outside_box_counterexample:
  "vlen (vsub (Vec3 (Fin 3) (Fin 0) (Fin 0)) (Vec3 (Fin 2) (Fin 0) (Fin 0))) = Fin 1
   \<and> repeatSimTimeStep 1 (Fin (1 / 100))
         [Vec3 (Fin 2) (Fin 0) (Fin 0), Vec3 (Fin 3) (Fin 0) (Fin 0)]
         [Vec3 (Fin 0) (Fin 0) (Fin 0), Vec3 (Fin 0) (Fin 0) (Fin 0)]
         [\<lparr>p0 = 0, p1 = 1, rest = Fin 1\<rparr>] (Fin 1) (Fin 0) (Fin 1)
         (Vec3 (Fin 0) (Fin 0) (Fin 0)) (Fin 1)
     = Inr ([Vec3 (Fin 1) (Fin 0) (Fin 0), Vec3 (Fin 1) (Fin 0) (Fin 0)],
            [Vec3 (Fin 0) (Fin 0) (Fin 0), Vec3 (Fin 0) (Fin 0) (Fin 0)])
   \<and> repeatSimTimeStep 1 (Fin (1 / 100))
         [Vec3 (Fin 2) (Fin 0) (Fin 0), Vec3 (Fin 3) (Fin 0) (Fin 0)]
         [Vec3 (Fin 0) (Fin 0) (Fin 0), Vec3 (Fin 0) (Fin 0) (Fin 0)]
         [\<lparr>p0 = 0, p1 = 1, rest = Fin 1\<rparr>] (Fin 1) (Fin 0) (Fin 1)
         (Vec3 (Fin 0) (Fin 0) (Fin 0)) (Fin 1)
     \<noteq> Inr ([Vec3 (Fin 2) (Fin 0) (Fin 0), Vec3 (Fin 3) (Fin 0) (Fin 0)],
            [Vec3 (Fin 0) (Fin 0) (Fin 0), Vec3 (Fin 0) (Fin 0) (Fin 0)])"
  by (simp add: sim_eval)

text \<open>
  C5, amended: for every rounding that leaves 0 as it is, with zero gravity, zero damping and
  restitution 1: two particles inside the box, walls included, whose coordinates are doubles,
  with zero velocity, joined by one spring whose rest length is the length the step computes
  for it, a finite number, and whose direction as the step computes it is finite (so that the
  length is not zero), with a finite stiffness, a finite mass that is not zero and a step
  size that is finite after the guard, are left where they are, with zero velocity, by every
  number of steps.
\<close>

theorem equilibrium_fixed_point:
  assumes "rnd 0 = Fin 0"
    and "vDouble rnd a" and "vDouble rnd b"
    and "inBox a" and "inBox b"
    and "p0 s < 2" and "p1 s < 2" and "p0 s \<noteq> p1 s"
    and "vlenR rnd (vsubR rnd ([a, b] ! p1 s) ([a, b] ! p0 s)) = rest s"
    and "isFin (rest s)"
    and "vfin (vunitR rnd (vsubR rnd ([a, b] ! p1 s) ([a, b] ! p0 s)))"
    and "isFin stiffness" and "isFin particleMass" and "particleMass \<noteq> Fin 0"
    and "isFin (clampDt dt)"
  shows "repeatSimTimeStepR rnd n dt [a, b] [vzero, vzero] [s] stiffness (Fin 0) particleMass
           vzero (Fin 1) = Inr ([a, b], [vzero, vzero])"
proof (induction n)
  case 0
  show ?case by simp
next
  case (Suc n)
  have "snd (SimTimeStepR rnd dt [a, b] [vzero, vzero] [s] stiffness (Fin 0) particleMass vzero
               (Fin 1)) = Inr ([a, b], [vzero, vzero])"
    using assms by (rule equilibrium_step)
  with Suc.IH show ?case by simp
qed

theorem equilibrium_fixed_point_witness:
  "Fin 0 = Fin 0
   \<and> vDouble Fin (Vec3 (Fin (- (1 / 2))) (Fin 0) (Fin 0))
   \<and> vDouble Fin (Vec3 (Fin (1 / 2)) (Fin 0) (Fin 0))
   \<and> inBox (Vec3 (Fin (- (1 / 2))) (Fin 0) (Fin 0))
   \<and> inBox (Vec3 (Fin (1 / 2)) (Fin 0) (Fin 0))
   \<and> p0 \<lparr>p0 = 0, p1 = 1, rest = Fin 1\<rparr> < 2
   \<and> p1 \<lparr>p0 = 0, p1 = 1, rest = Fin 1\<rparr> < 2
   \<and> p0 \<lparr>p0 = 0, p1 = 1, rest = Fin 1\<rparr> \<noteq> p1 \<lparr>p0 = 0, p1 = 1, rest = Fin 1\<rparr>
   \<and> vlenR Fin (vsubR Fin
        ([Vec3 (Fin (- (1 / 2))) (Fin 0) (Fin 0), Vec3 (Fin (1 / 2)) (Fin 0) (Fin 0)]
           ! p1 \<lparr>p0 = 0, p1 = 1, rest = Fin 1\<rparr>)
        ([Vec3 (Fin (- (1 / 2))) (Fin 0) (Fin 0), Vec3 (Fin (1 / 2)) (Fin 0) (Fin 0)]
           ! p0 \<lparr>p0 = 0, p1 = 1, rest = Fin 1\<rparr>))
     = rest \<lparr>p0 = 0, p1 = 1, rest = Fin 1\<rparr>
   \<and> isFin (rest \<lparr>p0 = 0, p1 = 1, rest = Fin 1\<rparr>)
   \<and> vfin (vunitR Fin (vsubR Fin
        ([Vec3 (Fin (- (1 / 2))) (Fin 0) (Fin 0), Vec3 (Fin (1 / 2)) (Fin 0) (Fin 0)]
           ! p1 \<lparr>p0 = 0, p1 = 1, rest = Fin 1\<rparr>)
        ([Vec3 (Fin (- (1 / 2))) (Fin 0) (Fin 0), Vec3 (Fin (1 / 2)) (Fin 0) (Fin 0)]
           ! p0 \<lparr>p0 = 0, p1 = 1, rest = Fin 1\<rparr>)))
   \<and> isFin (Fin 3) \<and> isFin (Fin 2) \<and> Fin 2 \<noteq> Fin 0 \<and> isFin (clampDt (Fin (1 / 64)))
   \<and> repeatSimTimeStepR Fin 3 (Fin (1 / 64))
         [Vec3 (Fin (- (1 / 2))) (Fin 0) (Fin 0), Vec3 (Fin (1 / 2)) (Fin 0) (Fin 0)]
         [vzero, vzero] [\<lparr>p0 = 0, p1 = 1, rest = Fin 1\<rparr>] (Fin 3) (Fin 0) (Fin 2) vzero (Fin 1)
     = Inr ([Vec3 (Fin (- (1 / 2))) (Fin 0) (Fin 0), Vec3 (Fin (1 / 2)) (Fin 0) (Fin 0)],
            [vzero, vzero])"
proof -
  have h1: "Fin 0 = Fin 0"
    by simp
  have h2: "vDouble Fin (Vec3 (Fin (- (1 / 2))) (Fin 0) (Fin 0))"
    and h3: "vDouble Fin (Vec3 (Fin (1 / 2)) (Fin 0) (Fin 0))"
    by (simp_all add: vDouble_def)
  have h4: "inBox (Vec3 (Fin (- (1 / 2))) (Fin 0) (Fin 0))"
    and h5: "inBox (Vec3 (Fin (1 / 2)) (Fin 0) (Fin 0))"
    by (simp_all add: inBox_def)
  have h6: "p0 \<lparr>p0 = 0, p1 = 1, rest = Fin 1\<rparr> < 2"
    and h7: "p1 \<lparr>p0 = 0, p1 = 1, rest = Fin 1\<rparr> < 2"
    and h8: "p0 \<lparr>p0 = 0, p1 = 1, rest = Fin 1\<rparr> \<noteq> p1 \<lparr>p0 = 0, p1 = 1, rest = Fin 1\<rparr>"
    by simp_all
  have h9: "vlenR Fin (vsubR Fin
        ([Vec3 (Fin (- (1 / 2))) (Fin 0) (Fin 0), Vec3 (Fin (1 / 2)) (Fin 0) (Fin 0)]
           ! p1 \<lparr>p0 = 0, p1 = 1, rest = Fin 1\<rparr>)
        ([Vec3 (Fin (- (1 / 2))) (Fin 0) (Fin 0), Vec3 (Fin (1 / 2)) (Fin 0) (Fin 0)]
           ! p0 \<lparr>p0 = 0, p1 = 1, rest = Fin 1\<rparr>))
     = rest \<lparr>p0 = 0, p1 = 1, rest = Fin 1\<rparr>"
    by (simp add: vlenR_Fin vsubR_Fin vlen_def vsub_def jsub_def)
  have h10: "isFin (rest \<lparr>p0 = 0, p1 = 1, rest = Fin 1\<rparr>)"
    by simp
  have h11: "vfin (vunitR Fin (vsubR Fin
        ([Vec3 (Fin (- (1 / 2))) (Fin 0) (Fin 0), Vec3 (Fin (1 / 2)) (Fin 0) (Fin 0)]
           ! p1 \<lparr>p0 = 0, p1 = 1, rest = Fin 1\<rparr>)
        ([Vec3 (Fin (- (1 / 2))) (Fin 0) (Fin 0), Vec3 (Fin (1 / 2)) (Fin 0) (Fin 0)]
           ! p0 \<lparr>p0 = 0, p1 = 1, rest = Fin 1\<rparr>)))"
    by (simp add: vunitR_Fin vsubR_Fin vunit_def vdiv_def vlen_def vsub_def jsub_def vfin_def)
  have h12: "isFin (Fin 3)" and h13: "isFin (Fin 2)" and h14: "Fin 2 \<noteq> Fin 0"
    and h15: "isFin (clampDt (Fin (1 / 64)))"
    by (simp_all add: clampDt_def maxDt_def jgt_def)
  from equilibrium_fixed_point [OF h1 h2 h3 h4 h5 h6 h7 h8 h9 h10 h11 h12 h13 h14 h15, of 3]
    h1 h2 h3 h4 h5 h6 h7 h8 h9 h10 h11 h12 h13 h14 h15
  show ?thesis
    by (intro conjI)
qed

section \<open>A spring of length zero\<close>

text \<open>
  C8: there is an input with a spring whose two particles are at the same place on which the
  step neither throws nor skips the spring: the displacement is the zero vector, its length
  is 0, the direction is that vector divided by 0, which is NaN in every coordinate, and the
  NaN reaches the force, the velocities and the positions the step leaves.
\<close>

theorem zero_length_spring_unguarded:
  "p0 \<lparr>p0 = 0, p1 = 1, rest = Fin 1\<rparr> \<noteq> p1 \<lparr>p0 = 0, p1 = 1, rest = Fin 1\<rparr>
   \<and> vsub ([Vec3 (Fin (1 / 2)) (Fin 0) (Fin 0), Vec3 (Fin (1 / 2)) (Fin 0) (Fin 0)] ! 1)
           ([Vec3 (Fin (1 / 2)) (Fin 0) (Fin 0), Vec3 (Fin (1 / 2)) (Fin 0) (Fin 0)] ! 0)
     = Vec3 (Fin 0) (Fin 0) (Fin 0)
   \<and> vlen (Vec3 (Fin 0) (Fin 0) (Fin 0)) = Fin 0
   \<and> vunit (Vec3 (Fin 0) (Fin 0) (Fin 0)) = vdiv (Vec3 (Fin 0) (Fin 0) (Fin 0)) (Fin 0)
   \<and> vunit (Vec3 (Fin 0) (Fin 0) (Fin 0)) = Vec3 NaN NaN NaN
   \<and> springForce (Fin 1) (Vec3 (Fin (1 / 2)) (Fin 0) (Fin 0)) (Vec3 (Fin (1 / 2)) (Fin 0) (Fin 0))
        (Fin 1) = Vec3 NaN NaN NaN
   \<and> SimTimeStep (Fin (1 / 100))
        [Vec3 (Fin (1 / 2)) (Fin 0) (Fin 0), Vec3 (Fin (1 / 2)) (Fin 0) (Fin 0)]
        [Vec3 (Fin 0) (Fin 0) (Fin 0), Vec3 (Fin 0) (Fin 0) (Fin 0)]
        [\<lparr>p0 = 0, p1 = 1, rest = Fin 1\<rparr>] (Fin 1) (Fin 0) (Fin 1)
        (Vec3 (Fin 0) (Fin 0) (Fin 0)) (Fin 1)
     = ([], Inr ([Vec3 NaN NaN NaN, Vec3 NaN NaN NaN], [Vec3 NaN NaN NaN, Vec3 NaN NaN NaN]))"
  by (simp add: sim_eval)

section \<open>Action and reaction\<close>




end
